theory Spec2Isabelle
  imports Complex_Main "HOL-Library.Sublist"
begin

section \<open>Conventions of the embedding\<close>

text \<open>
  The three components of \<^verbatim>\<open>src/analysis_frameworks\<close> are embedded: the scoring engine
  (\<^verbatim>\<open>scoring_engine.py\<close>), the framework engine (\<^verbatim>\<open>framework_engine.py\<close>) and the
  document classifier (\<^verbatim>\<open>document_classifier.py\<close>).

  \<^item> Python floats are modelled as exact reals: \<open>0.4\<close> is the real number \<open>4/10\<close>, and
    sums, products and quotients are exact. Rounding of IEEE doubles is not modelled.
  \<^item> A Python \<^verbatim>\<open>dict\<close> whose iteration order the code depends on is an association
    list in insertion order; \<^verbatim>\<open>d[k] = v\<close> is \<open>dict_set\<close>, which keeps the position of a
    key that is already present, as Python does.
  \<^item> A \<^verbatim>\<open>Dict[str, Any]\<close> argument is a record of the keys the code reads, each at the
    type the callers pass; the value the code uses for an absent key (\<^verbatim>\<open>False\<close>,
    \<^verbatim>\<open>[]\<close>) is the corresponding falsy value of the field.
\<close>

fun dict_set :: "'k \<Rightarrow> 'v \<Rightarrow> ('k \<times> 'v) list \<Rightarrow> ('k \<times> 'v) list" where
  "dict_set k v [] = [(k, v)]"
| "dict_set k v ((k', v') # rest) =
     (if k = k' then (k, v) # rest else (k', v') # dict_set k v rest)"

fun dict_get :: "('k \<times> 'v) list \<Rightarrow> 'k \<Rightarrow> 'v option" where
  "dict_get [] k = None"
| "dict_get ((k', v') # rest) k = (if k = k' then Some v' else dict_get rest k)"

text \<open>\<^verbatim>\<open>sub in s\<close> on strings: \<open>sub\<close> occurs as a contiguous piece of \<open>s\<close>.\<close>

fun starts_with :: "string \<Rightarrow> string \<Rightarrow> bool" where
  "starts_with [] s = True"
| "starts_with (p # ps) [] = False"
| "starts_with (p # ps) (c # cs) = (if p = c then starts_with ps cs else False)"

fun str_in :: "string \<Rightarrow> string \<Rightarrow> bool" where
  "str_in sub [] = (sub = [])"
| "str_in sub (c # cs) = (if starts_with sub (c # cs) then True else str_in sub cs)"

subsection \<open>Characters and strings\<close>

text \<open>
  A text is a list of characters, each standing for one code point below 256 (the Latin-1
  range); Python's tables for \<^verbatim>\<open>str.isspace\<close>, \<^verbatim>\<open>str.lower\<close> and the regular-expression
  classes are written out on that range.
\<close>

definition is_space :: "char \<Rightarrow> bool" where
  "is_space c = ((of_char c :: nat) \<in> {9, 10, 11, 12, 13, 28, 29, 30, 31, 32, 133, 160})"

definition is_upper :: "char \<Rightarrow> bool" where
  "is_upper c =
     (let n = (of_char c :: nat)
      in (65 \<le> n \<and> n \<le> 90) \<or> (192 \<le> n \<and> n \<le> 222 \<and> n \<noteq> 215))"

text \<open>
  \<^verbatim>\<open>str.lower\<close> moves an upper-case letter 32 code points up; the upper-case letters all
  have bit 5 clear, so that is setting bit 5.
\<close>

definition lower_char :: "char \<Rightarrow> char" where
  "lower_char c =
     (if is_upper c
      then (case c of Char b0 b1 b2 b3 b4 b5 b6 b7 \<Rightarrow> Char b0 b1 b2 b3 b4 True b6 b7)
      else c)"

definition py_lower :: "string \<Rightarrow> string" where
  "py_lower s = map lower_char s"

text \<open>\<^verbatim>\<open>str.strip()\<close> and \<^verbatim>\<open>str.split()\<close> without arguments.\<close>

definition py_strip :: "string \<Rightarrow> string" where
  "py_strip s = rev (dropWhile is_space (rev (dropWhile is_space s)))"

fun split_from :: "string \<Rightarrow> string \<Rightarrow> string list" where
  "split_from cur [] = (if cur = [] then [] else [cur])"
| "split_from cur (c # cs) =
     (if is_space c then (if cur = [] then split_from [] cs else cur # split_from [] cs)
      else split_from (cur @ [c]) cs)"

definition py_split :: "string \<Rightarrow> string list" where
  "py_split s = split_from [] s"

section \<open>Scoring engine\<close>

subsection \<open>Inputs\<close>

text \<open>
  The indicator bundle \<^verbatim>\<open>indian_legal_indicators\<close> (also passed to the framework engine
  as \<^verbatim>\<open>content_indicators\<close>) and the analysis bundle with its chunk texts.
\<close>

record indicators =
  constitutional_relevance :: bool
  dpdpa_relevance :: bool
  article_mentions :: "int list"
  privacy_terms :: "string list"
  government_terms :: "string list"

record document_analysis =
  indian_legal_indicators :: indicators
  enhanced_chunks :: "string list"

subsection \<open>Configuration tables\<close>

record criterion_config =
  weight :: real
  scoring_method :: string

record category_config =
  category_weight :: real
  criteria :: "(string \<times> criterion_config) list"

definition scoring_criteria :: "(string \<times> category_config) list" where
  "scoring_criteria =
    [(''constitutional_compliance'',
       \<lparr>category_weight = 4/10,
        criteria =
         [(''fundamental_rights_adherence'',
             \<lparr>weight = 3/10, scoring_method = ''rights_protection_analysis''\<rparr>),
          (''constitutional_validity'',
             \<lparr>weight = 3/10, scoring_method = ''validity_framework_analysis''\<rparr>),
          (''procedural_compliance'',
             \<lparr>weight = 4/10, scoring_method = ''due_process_evaluation''\<rparr>)]\<rparr>),
     (''privacy_compliance'',
       \<lparr>category_weight = 3/10,
        criteria =
         [(''article_21_compliance'',
             \<lparr>weight = 4/10, scoring_method = ''puttaswamy_framework_assessment''\<rparr>),
          (''consent_mechanism'',
             \<lparr>weight = 3/10, scoring_method = ''consent_validity_analysis''\<rparr>),
          (''transparency'',
             \<lparr>weight = 3/10, scoring_method = ''disclosure_adequacy_assessment''\<rparr>)]\<rparr>),
     (''dpdpa_compliance'',
       \<lparr>category_weight = 3/10,
        criteria =
         [(''lawful_basis'',
             \<lparr>weight = 35/100, scoring_method = ''lawful_processing_assessment''\<rparr>),
          (''data_fiduciary_obligations'',
             \<lparr>weight = 35/100, scoring_method = ''fiduciary_compliance_analysis''\<rparr>),
          (''data_principal_rights'',
             \<lparr>weight = 3/10, scoring_method = ''principal_rights_protection''\<rparr>)]\<rparr>)]"

definition overall_risk_thresholds :: "(string \<times> real) list" where
  "overall_risk_thresholds =
    [(''very_low'', 87), (''low'', 72), (''medium'', 57), (''high'', 37), (''very_high'', 0)]"

definition risk_thresholds :: "(string \<times> (string \<times> real) list) list" where
  "risk_thresholds =
    [(''constitutional_risk'',
       [(''very_low'', 90), (''low'', 75), (''medium'', 60), (''high'', 40), (''very_high'', 0)]),
     (''privacy_risk'',
       [(''very_low'', 85), (''low'', 70), (''medium'', 55), (''high'', 35), (''very_high'', 0)]),
     (''compliance_risk'',
       [(''very_low'', 88), (''low'', 73), (''medium'', 58), (''high'', 38), (''very_high'', 0)]),
     (''overall_risk'', overall_risk_thresholds)]"

subsection \<open>Risk levels\<close>

text \<open>
  \<^verbatim>\<open>_get_risk_level\<close>: the table of the risk type, or the \<^verbatim>\<open>overall_risk\<close> table when the
  type has none; the loop returns the first level, in the table's order, whose threshold
  the score reaches, and \<^verbatim>\<open>"very_high"\<close> when it runs off the end.
\<close>

definition thresholds_for :: "string \<Rightarrow> (string \<times> real) list" where
  "thresholds_for risk_type =
     (case dict_get risk_thresholds risk_type of
        Some t \<Rightarrow> t
      | None \<Rightarrow> overall_risk_thresholds)"

fun first_level :: "(string \<times> real) list \<Rightarrow> real \<Rightarrow> string" where
  "first_level [] s = ''very_high''"
| "first_level ((level, threshold) # rest) s =
     (if s \<ge> threshold then level else first_level rest s)"

definition get_risk_level :: "string \<Rightarrow> real \<Rightarrow> string" where
  "get_risk_level risk_type s = first_level (thresholds_for risk_type) s"

text \<open>
  The key that \<^verbatim>\<open>_assess_comprehensive_risk\<close> builds for a category:
  \<^verbatim>\<open>f"{category.split('_')[0]}_risk"\<close>, the part of the name before its first
  underscore followed by \<^verbatim>\<open>_risk\<close>.
\<close>

definition risk_type_of :: "string \<Rightarrow> string" where
  "risk_type_of category = takeWhile (\<lambda>c. c \<noteq> CHR ''_'') category @ ''_risk''"

text \<open>
  The level the loop of \<^verbatim>\<open>_assess_comprehensive_risk\<close> gives a category with score \<open>s\<close>:
  \<^verbatim>\<open>self._get_risk_level(f"{category.split('_')[0]}_risk", score)\<close>.
\<close>

definition category_risk_level :: "string \<Rightarrow> real \<Rightarrow> string" where
  "category_risk_level category s = get_risk_level (risk_type_of category) s"

subsection \<open>Criterion scoring\<close>

record score_result =
  score :: real
  issues :: "string list"
  recommendations :: "string list"

record criterion_score = score_result +
  criterion :: string
  method_name :: string

record category_score = score_result +
  criterion_scores :: "(string \<times> criterion_score) list"
  category :: string
  framework :: string

text \<open>
  \<^verbatim>\<open>_score_fundamental_rights_protection\<close>: 70, plus 15 with constitutional relevance and
  minus 10 without; plus 3 for each article mentioned; clamped to 0..100.
\<close>

definition score_fundamental_rights_protection :: "document_analysis \<Rightarrow> score_result" where
  "score_fundamental_rights_protection analysis =
     (let ind = indian_legal_indicators analysis;
          s1 = (if constitutional_relevance ind then 70 + 15 else 70 - 10);
          i1 = (if constitutional_relevance ind then []
                else [''Constitutional relevance not clearly established'']);
          s2 = (if article_mentions ind \<noteq> []
                then s1 + real (length (article_mentions ind)) * 3 else s1);
          i2 = (if article_mentions ind \<noteq> [] then i1
                else i1 @ [''No constitutional articles specifically referenced'']);
          r2 = (if article_mentions ind \<noteq> [] then []
                else [''Reference relevant constitutional provisions''])
      in \<lparr>score = min 100 (max 0 s2), issues = i2, recommendations = r2\<rparr>)"

text \<open>
  \<^verbatim>\<open>_score_privacy_rights_compliance\<close>: 60, plus 8 for each privacy term or minus 15 when
  there is none; plus 15 with DPDPA relevance; clamped to 0..100.
\<close>

definition score_privacy_rights_compliance :: "document_analysis \<Rightarrow> score_result" where
  "score_privacy_rights_compliance analysis =
     (let ind = indian_legal_indicators analysis;
          s1 = (if privacy_terms ind \<noteq> []
                then 60 + real (length (privacy_terms ind)) * 8 else 60 - 15);
          i1 = (if privacy_terms ind \<noteq> [] then []
                else [''Privacy protection measures not adequately addressed'']);
          r1 = (if privacy_terms ind \<noteq> [] then []
                else [''Implement comprehensive privacy protection measures'']);
          s2 = (if dpdpa_relevance ind then s1 + 15 else s1);
          i2 = (if dpdpa_relevance ind then i1
                else i1 @ [''DPDPA compliance requirements not addressed'']);
          r2 = (if dpdpa_relevance ind then r1
                else r1 @ [''Implement DPDPA 2023 compliance measures''])
      in \<lparr>score = min 100 (max 0 s2), issues = i2, recommendations = r2\<rparr>)"

text \<open>
  \<^verbatim>\<open>_score_dpdpa_lawful_basis\<close>: 65, plus 15 when some chunk's lower-cased text contains
  \<^verbatim>\<open>consent\<close>, plus 10 when some chunk contains \<^verbatim>\<open>lawful basis\<close> or
  \<^verbatim>\<open>legitimate interest\<close>; clamped to 0..100.
\<close>

definition score_dpdpa_lawful_basis :: "document_analysis \<Rightarrow> score_result" where
  "score_dpdpa_lawful_basis analysis =
     (let chunks = map py_lower (enhanced_chunks analysis);
          consent_mentions = length (filter (str_in ''consent'') chunks);
          lawful_basis_mentions =
            length (filter (\<lambda>t. str_in ''lawful basis'' t \<or> str_in ''legitimate interest'' t)
              chunks);
          s1 = (if consent_mentions > 0 then 65 + 15 else 65);
          i1 = (if consent_mentions > 0 then []
                else [''No clear consent mechanism identified'']);
          r1 = (if consent_mentions > 0 then []
                else [''Implement clear consent collection procedures'']);
          s2 = (if lawful_basis_mentions > 0 then s1 + 10 else s1);
          i2 = (if lawful_basis_mentions > 0 then i1
                else i1 @ [''Lawful basis for processing not clearly established'']);
          r2 = (if lawful_basis_mentions > 0 then r1
                else r1 @ [''Establish and document lawful basis for data processing''])
      in \<lparr>score = min 100 (max 0 s2), issues = i2, recommendations = r2\<rparr>)"

definition default_scoring_method :: score_result where
  "default_scoring_method =
     \<lparr>score = 65, issues = [],
      recommendations = [''Manual review recommended for detailed assessment'']\<rparr>"

text \<open>
  \<^verbatim>\<open>_score_criterion\<close> dispatches on the method name. The \<^verbatim>\<open>except\<close> branch is not
  modelled: on an analysis bundle of the record type above none of the four methods
  raises.
\<close>

definition score_criterion ::
  "string \<Rightarrow> criterion_config \<Rightarrow> document_analysis \<Rightarrow> string \<Rightarrow> criterion_score" where
  "score_criterion criterion_name config analysis fw =
     (let score_res =
        (if scoring_method config = ''rights_protection_analysis''
           then score_fundamental_rights_protection analysis
         else if scoring_method config = ''puttaswamy_framework_assessment''
           then score_privacy_rights_compliance analysis
         else if scoring_method config = ''lawful_processing_assessment''
           then score_dpdpa_lawful_basis analysis
         else default_scoring_method)
      in \<lparr>score = score score_res, issues = issues score_res,
          recommendations = recommendations score_res,
          criterion = criterion_name, method_name = scoring_method config\<rparr>)"

subsection \<open>Category scoring\<close>

definition map_framework_to_category :: "string \<Rightarrow> string" where
  "map_framework_to_category fw =
     (case dict_get
        [(''constitutional_analysis'', ''constitutional_compliance''),
         (''privacy_rights_analysis'', ''privacy_compliance''),
         (''dpdpa_compliance'', ''dpdpa_compliance''),
         (''administrative_law'', ''constitutional_compliance''),
         (''general_legal_analysis'', ''constitutional_compliance'')] fw of
        Some c \<Rightarrow> c
      | None \<Rightarrow> ''constitutional_compliance'')"

definition get_category_weight :: "string \<Rightarrow> real" where
  "get_category_weight cat =
     (case dict_get scoring_criteria cat of
        Some cfg \<Rightarrow> category_weight cfg
      | None \<Rightarrow> 33/100)"

text \<open>
  The loop of \<^verbatim>\<open>_score_framework_category\<close> over the criteria of the category: the
  running weighted sum, the criterion results, the issues and the recommendations.
\<close>

record criteria_acc =
  acc_score :: real
  acc_criterion_scores :: "(string \<times> criterion_score) list"
  acc_issues :: "string list"
  acc_recommendations :: "string list"

definition criterion_step ::
  "document_analysis \<Rightarrow> string \<Rightarrow> string \<times> criterion_config \<Rightarrow> criteria_acc \<Rightarrow> criteria_acc"
  where
  "criterion_step analysis fw entry acc =
     (let cs = score_criterion (fst entry) (snd entry) analysis fw
      in \<lparr>acc_score = acc_score acc + score cs * weight (snd entry),
          acc_criterion_scores = dict_set (fst entry) cs (acc_criterion_scores acc),
          acc_issues = acc_issues acc @ issues cs,
          acc_recommendations = acc_recommendations acc @ recommendations cs\<rparr>)"

definition score_framework_category ::
  "string \<Rightarrow> document_analysis \<Rightarrow> category_score option" where
  "score_framework_category fw analysis =
     (let category_name = map_framework_to_category fw
      in case dict_get scoring_criteria category_name of
           None \<Rightarrow> None
         | Some category_cfg \<Rightarrow>
             (let acc = fold (criterion_step analysis fw) (criteria category_cfg)
                          \<lparr>acc_score = 0, acc_criterion_scores = [], acc_issues = [],
                           acc_recommendations = []\<rparr>
              in Some \<lparr>score = min 100 (max 0 (acc_score acc)),
                       issues = acc_issues acc,
                       recommendations = acc_recommendations acc,
                       criterion_scores = acc_criterion_scores acc,
                       category = category_name, framework = fw\<rparr>))"

subsection \<open>The comprehensive score\<close>

definition determine_compliance_level :: "real \<Rightarrow> string" where
  "determine_compliance_level overall =
     (if overall \<ge> 90 then ''excellent''
      else if overall \<ge> 80 then ''good''
      else if overall \<ge> 70 then ''satisfactory''
      else if overall \<ge> 60 then ''needs_improvement''
      else ''poor'')"

record category_risk =
  risk_level :: string
  risk_score :: real
  risk_issues :: "string list"

record risk_assessment =
  overall_risk_level :: string
  category_risks :: "(string \<times> category_risk) list"
  critical_risks :: "(string \<times> string \<times> real) list"

definition risk_step ::
  "string \<times> category_score \<Rightarrow> risk_assessment \<Rightarrow> risk_assessment" where
  "risk_step entry ra =
     (let s = score (snd entry);
          lvl = category_risk_level (fst entry) s
      in ra\<lparr>category_risks :=
               dict_set (fst entry)
                 \<lparr>risk_level = lvl, risk_score = s, risk_issues = issues (snd entry)\<rparr>
                 (category_risks ra),
             critical_risks :=
               (if lvl = ''high'' \<or> lvl = ''very_high''
                then critical_risks ra @ [(fst entry, lvl, s)] else critical_risks ra)\<rparr>)"

definition assess_comprehensive_risk ::
  "(string \<times> category_score) list \<Rightarrow> real \<Rightarrow> risk_assessment" where
  "assess_comprehensive_risk cat_scores overall =
     fold risk_step cat_scores
       \<lparr>overall_risk_level = get_risk_level ''overall_risk'' overall,
        category_risks = [], critical_risks = []\<rparr>"

text \<open>
  The loop of \<^verbatim>\<open>calculate_comprehensive_score\<close> over \<^verbatim>\<open>frameworks_applied\<close>. The
  timestamp and the scoring-confidence field of the result are left out.
\<close>

record scoring_acc =
  category_scores :: "(string \<times> category_score) list"
  total_weighted_score :: real
  total_weight :: real
  critical_issues :: "string list"
  all_recommendations :: "string list"

definition framework_step :: "document_analysis \<Rightarrow> string \<Rightarrow> scoring_acc \<Rightarrow> scoring_acc" where
  "framework_step analysis fw acc =
     (case score_framework_category fw analysis of
        None \<Rightarrow> acc
      | Some cat_score \<Rightarrow>
          (let category_name = map_framework_to_category fw;
               cat_weight = get_category_weight category_name
           in \<lparr>category_scores = dict_set category_name cat_score (category_scores acc),
               total_weighted_score = total_weighted_score acc + score cat_score * cat_weight,
               total_weight = total_weight acc + cat_weight,
               critical_issues = critical_issues acc @ issues cat_score,
               all_recommendations = all_recommendations acc @ recommendations cat_score\<rparr>))"

definition scoring_loop :: "document_analysis \<Rightarrow> string list \<Rightarrow> scoring_acc" where
  "scoring_loop analysis frameworks_applied =
     fold (framework_step analysis) frameworks_applied
       \<lparr>category_scores = [], total_weighted_score = 0, total_weight = 0,
        critical_issues = [], all_recommendations = []\<rparr>"

record scoring_results =
  overall_score :: real
  result_category_scores :: "(string \<times> category_score) list"
  result_risk_assessment :: risk_assessment
  compliance_level :: string
  result_critical_issues :: "string list"
  result_recommendations :: "string list"

definition calculate_comprehensive_score ::
  "document_analysis \<Rightarrow> string list \<Rightarrow> scoring_results" where
  "calculate_comprehensive_score analysis frameworks_applied =
     (let acc = scoring_loop analysis frameworks_applied;
          overall = (if total_weight acc > 0
                     then total_weighted_score acc / total_weight acc else 0)
      in \<lparr>overall_score = overall,
          result_category_scores = category_scores acc,
          result_risk_assessment = assess_comprehensive_risk (category_scores acc) overall,
          compliance_level = determine_compliance_level overall,
          result_critical_issues = critical_issues acc,
          result_recommendations = all_recommendations acc\<rparr>)"

subsection \<open>The overall score as the specification words it\<close>

text \<open>
  The score the engine computes for one framework, the score stored under a category in
  the result's \<^verbatim>\<open>category_scores\<close>, and the weighted mean that counts every category of
  that map once (the specification's wording of the overall score).
\<close>

definition framework_points :: "document_analysis \<Rightarrow> string \<Rightarrow> real" where
  "framework_points analysis fw =
     (case score_framework_category fw analysis of None \<Rightarrow> 0 | Some e \<Rightarrow> score e)"

definition entry_score :: "(string \<times> category_score) list \<Rightarrow> string \<Rightarrow> real" where
  "entry_score cat_scores cat =
     (case dict_get cat_scores cat of None \<Rightarrow> 0 | Some e \<Rightarrow> score e)"



text \<open>An analysis bundle with no indicator set and no chunk.\<close>

definition empty_analysis :: document_analysis where
  "empty_analysis =
     \<lparr>indian_legal_indicators =
        \<lparr>constitutional_relevance = False, dpdpa_relevance = False, article_mentions = [],
         privacy_terms = [], government_terms = []\<rparr>,
      enhanced_chunks = []\<rparr>"


section \<open>Framework engine\<close>

subsection \<open>Registry and rules\<close>

text \<open>
  Of a registry entry the selection reads \<^verbatim>\<open>applicable_documents\<close> and \<^verbatim>\<open>priority\<close>; the
  descriptive fields (articles, methods, descriptions) are not read by it.
\<close>

record framework_config =
  applicable_documents :: "string list"
  priority :: nat

definition framework_registry :: "(string \<times> framework_config) list" where
  "framework_registry =
    [(''constitutional_analysis'',
       \<lparr>applicable_documents =
          [''government_notification'', ''constitutional_document'', ''supreme_court_judgment'',
           ''constitutional_amendment'', ''recruitment_rules'', ''office_memorandum''],
        priority = 1\<rparr>),
     (''privacy_rights_analysis'',
       \<lparr>applicable_documents =
          [''privacy_policy'', ''dpdpa_compliance_document'', ''data_processing_agreement'',
           ''employment_contract'', ''service_agreement''],
        priority = 2\<rparr>),
     (''dpdpa_compliance'',
       \<lparr>applicable_documents =
          [''privacy_policy'', ''dpdpa_compliance_document'', ''data_processing_agreement''],
        priority = 2\<rparr>),
     (''contract_law_analysis'',
       \<lparr>applicable_documents =
          [''service_agreement'', ''employment_contract'', ''non_disclosure_agreement'',
           ''partnership_agreement'', ''loan_agreement'', ''lease_agreement''],
        priority = 3\<rparr>),
     (''administrative_law'',
       \<lparr>applicable_documents =
          [''government_notification'', ''office_memorandum'', ''recruitment_rules'',
           ''policy_document'', ''compliance_manual''],
        priority = 2\<rparr>),
     (''general_legal_analysis'',
       \<lparr>applicable_documents = [''general_legal_document'', ''unknown''],
        priority = 4\<rparr>)]"

definition combination_rules :: "(string \<times> string list) list" where
  "combination_rules =
    [(''government_documents'', [''constitutional_analysis'', ''administrative_law'']),
     (''privacy_documents'',
        [''privacy_rights_analysis'', ''dpdpa_compliance'', ''constitutional_analysis'']),
     (''commercial_contracts'', [''contract_law_analysis'', ''constitutional_analysis'']),
     (''employment_matters'',
        [''labor_law_analysis'', ''contract_law_analysis'', ''constitutional_analysis'']),
     (''judicial_documents'', [''case_law_analysis'', ''constitutional_analysis''])]"

definition minimum_frameworks :: nat where
  "minimum_frameworks = 1"

definition maximum_frameworks :: nat where
  "maximum_frameworks = 4"

subsection \<open>Selection steps\<close>

definition get_primary_frameworks :: "string \<Rightarrow> string list" where
  "get_primary_frameworks document_type =
     map fst (filter (\<lambda>entry. document_type \<in> set (applicable_documents (snd entry)))
                framework_registry)"

definition get_content_based_frameworks :: "indicators \<Rightarrow> string list" where
  "get_content_based_frameworks ci =
     (if constitutional_relevance ci then [''constitutional_analysis''] else [])
     @ (if dpdpa_relevance ci \<or> privacy_terms ci \<noteq> []
        then [''privacy_rights_analysis'', ''dpdpa_compliance''] else [])
     @ (if government_terms ci \<noteq> [] then [''administrative_law''] else [])"

text \<open>The loops \<^verbatim>\<open>if framework not in xs: xs.append(framework)\<close>.\<close>

definition append_new :: "string \<Rightarrow> string list \<Rightarrow> string list" where
  "append_new fw xs = (if fw \<in> set xs then xs else xs @ [fw])"

definition categorize_document_type :: "string \<Rightarrow> string" where
  "categorize_document_type document_type =
     (if document_type \<in> set [''government_notification'', ''office_memorandum'',
                                ''recruitment_rules'']
        then ''government_documents''
      else if document_type \<in> set [''privacy_policy'', ''dpdpa_compliance_document'']
        then ''privacy_documents''
      else if document_type \<in> set [''service_agreement'', ''employment_contract'']
        then ''commercial_contracts''
      else if document_type \<in> set [''employment_contract'']
        then ''employment_matters''
      else if document_type \<in> set [''supreme_court_judgment'', ''high_court_judgment'']
        then ''judicial_documents''
      else ''general_documents'')"

definition apply_combination_rules :: "string \<Rightarrow> string list \<Rightarrow> string list" where
  "apply_combination_rules document_type frameworks =
     (let doc_category = categorize_document_type document_type;
          combination_rule = (case dict_get combination_rules doc_category of
                                Some rule \<Rightarrow> rule | None \<Rightarrow> [])
      in fold append_new combination_rule frameworks)"

definition framework_priority :: "string \<Rightarrow> nat" where
  "framework_priority fw =
     (case dict_get framework_registry fw of Some cfg \<Rightarrow> priority cfg | None \<Rightarrow> 5)"

text \<open>
  \<^verbatim>\<open>_prioritize_and_limit_frameworks\<close>. Python's \<^verbatim>\<open>list.sort(key=...)\<close> is a stable sort;
  it is modelled by \<open>sort_key\<close>, the stable insertion sort of the list library.
\<close>

definition prioritize_and_limit_frameworks :: "string list \<Rightarrow> string list" where
  "prioritize_and_limit_frameworks frameworks =
     (let sorted_frameworks = sort_key framework_priority frameworks;
          with_minimum =
            (if length sorted_frameworks < minimum_frameworks
             then append_new ''general_legal_analysis'' sorted_frameworks
             else sorted_frameworks)
      in take maximum_frameworks with_minimum)"

text \<open>
  The list \<^verbatim>\<open>combined_frameworks\<close> of \<^verbatim>\<open>select_frameworks\<close>, in insertion order: the
  primary frameworks, the content-based ones not yet present, \<^verbatim>\<open>constitutional_analysis\<close>
  at a confidence of 0.5 or more, and the combination rule of the document's category.
  An absent \<^verbatim>\<open>content_indicators\<close> argument is the bundle with every field falsy.
\<close>

definition no_indicators :: indicators where
  "no_indicators =
     \<lparr>constitutional_relevance = False, dpdpa_relevance = False, article_mentions = [],
      privacy_terms = [], government_terms = []\<rparr>"

definition combined_frameworks :: "string \<Rightarrow> real \<Rightarrow> indicators option \<Rightarrow> string list" where
  "combined_frameworks document_type confidence content_indicators =
     (let ci = (case content_indicators of Some c \<Rightarrow> c | None \<Rightarrow> no_indicators);
          primary = get_primary_frameworks document_type;
          selected = fold append_new (get_content_based_frameworks ci) primary;
          selected' = (if confidence \<ge> 5/10 \<and> ''constitutional_analysis'' \<notin> set selected
                       then selected @ [''constitutional_analysis''] else selected)
      in apply_combination_rules document_type selected')"

text \<open>\<^verbatim>\<open>"; ".join(reasons)\<close>.\<close>

fun join_reasons :: "string list \<Rightarrow> string" where
  "join_reasons [] = []"
| "join_reasons [r] = r"
| "join_reasons (r # rs) = r @ ''; '' @ join_reasons rs"

definition generate_selection_reason ::
  "string \<Rightarrow> string \<Rightarrow> real \<Rightarrow> indicators \<Rightarrow> string" where
  "generate_selection_reason fw document_type confidence ci =
     (let applicable = (case dict_get framework_registry fw of
                          Some cfg \<Rightarrow> applicable_documents cfg | None \<Rightarrow> []);
          r1 = (if document_type \<in> set applicable
                then [''Document type '' @ [CHR 0x27] @ document_type @ [CHR 0x27]
                      @ '' matches framework scope'']
                else []);
          r2 = (if fw = ''constitutional_analysis'' \<and> constitutional_relevance ci
                  then [''Constitutional content detected'']
                else if fw = ''privacy_rights_analysis'' \<and> privacy_terms ci \<noteq> []
                  then [''Privacy-related content identified'']
                else if fw = ''dpdpa_compliance'' \<and> dpdpa_relevance ci
                  then [''DPDPA compliance requirements identified'']
                else []);
          r3 = (if confidence \<ge> 7/10
                then [''High classification confidence supports framework application'']
                else []);
          reasons = r1 @ r2 @ r3
      in join_reasons
           (if reasons = []
            then [''Selected based on document analysis and legal framework requirements'']
            else reasons))"

record framework_selection =
  selected_frameworks :: "string list"
  framework_count :: nat
  selection_confidence :: real
  selection_reasons :: "(string \<times> string) list"
  selected_document_type :: string

text \<open>\<^verbatim>\<open>select_frameworks\<close>; the timestamp of the result is left out.\<close>

definition select_frameworks ::
  "string \<Rightarrow> real \<Rightarrow> indicators option \<Rightarrow> framework_selection" where
  "select_frameworks document_type confidence content_indicators =
     (let ci = (case content_indicators of Some c \<Rightarrow> c | None \<Rightarrow> no_indicators);
          final_frameworks =
            prioritize_and_limit_frameworks
              (combined_frameworks document_type confidence content_indicators)
      in \<lparr>selected_frameworks = final_frameworks,
          framework_count = length final_frameworks,
          selection_confidence = confidence,
          selection_reasons =
            fold (\<lambda>fw d. dict_set fw (generate_selection_reason fw document_type confidence ci) d)
              final_frameworks [],
          selected_document_type = document_type\<rparr>)"

section \<open>Document classifier\<close>

subsection \<open>Regular expressions\<close>

text \<open>
  The patterns of the classifier are sequences of single-character items, each taken
  once, one or more times, or optionally; a group around an item and a repetition count
  are written out. An item is a literal character, one of the classes for whitespace,
  decimal digits and word characters, or a bracket set (possibly negated). All searches
  of the classifier ignore case, so a literal and a set member match a character with
  the same lower-case form. The tables of the classes are Python's on code points below
  256.
\<close>

definition is_digit :: "char \<Rightarrow> bool" where
  "is_digit c = (let n = (of_char c :: nat) in 48 \<le> n \<and> n \<le> 57)"

definition is_word :: "char \<Rightarrow> bool" where
  "is_word c =
     (let n = (of_char c :: nat)
      in (48 \<le> n \<and> n \<le> 57) \<or> (65 \<le> n \<and> n \<le> 90) \<or> n = 95
         \<or> (97 \<le> n \<and> n \<le> 122)
         \<or> n \<in> {170, 178, 179, 181, 185, 186, 188, 189, 190}
         \<or> (192 \<le> n \<and> n \<noteq> 215 \<and> n \<noteq> 247))"

datatype char_class = Lit char | Space | Digit | Word | OneOf string | NoneOf string

datatype quantifier = Once | Plus | Opt

type_synonym regex = "(char_class \<times> quantifier) list"

fun class_match :: "char_class \<Rightarrow> char \<Rightarrow> bool" where
  "class_match (Lit p) c = (lower_char c = lower_char p)"
| "class_match Space c = is_space c"
| "class_match Digit c = is_digit c"
| "class_match Word c = is_word c"
| "class_match (OneOf cs) c = (lower_char c \<in> set (map lower_char cs))"
| "class_match (NoneOf cs) c = (lower_char c \<notin> set (map lower_char cs))"

text \<open>
  \<open>match_here r s\<close>: some prefix of \<open>s\<close> matches \<open>r\<close>. \<open>re_search r s\<close>: a match starts at
  some position of \<open>s\<close>, which is when \<^verbatim>\<open>re.search\<close> returns a match object.
\<close>

fun match_here :: "regex \<Rightarrow> string \<Rightarrow> bool" where
  "match_here [] s = True"
| "match_here ((cl, Once) # r) [] = False"
| "match_here ((cl, Once) # r) (c # cs) = (if class_match cl c then match_here r cs else False)"
| "match_here ((cl, Opt) # r) [] = match_here r []"
| "match_here ((cl, Opt) # r) (c # cs) =
     (if class_match cl c
      then (if match_here r cs then True else match_here r (c # cs))
      else match_here r (c # cs))"
| "match_here ((cl, Plus) # r) [] = False"
| "match_here ((cl, Plus) # r) (c # cs) =
     (if class_match cl c
      then (if match_here ((cl, Plus) # r) cs then True else match_here r cs)
      else False)"

fun re_search :: "regex \<Rightarrow> string \<Rightarrow> bool" where
  "re_search r [] = match_here r []"
| "re_search r (c # cs) = (if match_here r (c # cs) then True else re_search r cs)"

text \<open>
  Building blocks of the pattern tables: a literal string (an escaped dot or parenthesis
  of the source is the literal character), a whitespace run, a run of digits, one digit,
  a bracket set taken once, and literal words separated by whitespace runs. The source's
  \<^verbatim>\<open>Government\<close>, whitespace run, \<^verbatim>\<open>of\<close>, whitespace run, \<^verbatim>\<open>India\<close> is
  \<open>words [Government, of, India]\<close>.
\<close>

definition lit :: "string \<Rightarrow> regex" where
  "lit s = map (\<lambda>c. (Lit c, Once)) s"

definition ws :: regex where
  "ws = [(Space, Plus)]"

definition digits :: regex where
  "digits = [(Digit, Plus)]"

definition digit :: regex where
  "digit = [(Digit, Once)]"

definition one_of :: "string \<Rightarrow> regex" where
  "one_of cs = [(OneOf cs, Once)]"

definition upper_letters :: string where
  "upper_letters = ''ABCDEFGHIJKLMNOPQRSTUVWXYZ''"

fun words :: "string list \<Rightarrow> regex" where
  "words [] = []"
| "words [w] = lit w"
| "words (w # rest) = lit w @ ws @ words rest"

subsection \<open>Classification tables\<close>

record doc_criteria =
  keyword_terms :: "string list"
  patterns :: "regex list"
  structure_elements :: "string list"
  weight_keyword :: real
  weight_pattern :: real
  weight_structure :: real

definition government_notification_criteria :: doc_criteria where
  "government_notification_criteria =
     \<lparr>keyword_terms = [''government of india'', ''notification'', ''ministry'', ''gazette'',
                  ''office memorandum'', ''central government'', ''bharat sarkar''],
      patterns = [lit ''No.'' @ ws @ one_of upper_letters @ lit ''-'' @ digits,
                  words [''dated'', ''the''] @ ws @ digits,
                  words [''Government'', ''of'', ''India''],
                  words [''Ministry'', ''of''],
                  words [''Department'', ''of'']],
      structure_elements = [''preamble'', ''notification'', ''signature'', ''seal''],
      weight_keyword = 4/10, weight_pattern = 3/10, weight_structure = 3/10\<rparr>"

definition office_memorandum_criteria :: doc_criteria where
  "office_memorandum_criteria =
     \<lparr>keyword_terms = [''office memorandum'', ''om'', ''circular'', ''guidelines'',
                  ''instructions'', ''departmental''],
      patterns = [words [''OFFICE'', ''MEMORANDUM''],
                  words [''O.M.'', ''No''],
                  words [''Circular'', ''No''],
                  lit ''Guidelines''],
      structure_elements = [''header'', ''subject'', ''body'', ''signature''],
      weight_keyword = 5/10, weight_pattern = 3/10, weight_structure = 2/10\<rparr>"

definition recruitment_rules_criteria :: doc_criteria where
  "recruitment_rules_criteria =
     \<lparr>keyword_terms = [''recruitment rules'', ''appointment'', ''selection'', ''eligibility'',
                  ''qualification'', ''cadre''],
      patterns = [words [''Recruitment'', ''Rules''],
                  words [''post'', ''of''],
                  lit ''Group'' @ ws @ one_of ''AB'',
                  words [''Pay'', ''Matrix''],
                  lit ''Level'' @ ws @ digits],
      structure_elements = [''rules'', ''schedule'', ''qualifications''],
      weight_keyword = 4/10, weight_pattern = 4/10, weight_structure = 2/10\<rparr>"

definition constitutional_document_criteria :: doc_criteria where
  "constitutional_document_criteria =
     \<lparr>keyword_terms = [''constitution'', ''article'', ''fundamental rights'',
                  ''directive principles'', ''part iii'', ''part iv''],
      patterns = [lit ''Article'' @ ws @ digits,
                  words [''Constitution'', ''of'', ''India''],
                  lit ''Part'' @ ws @ [(OneOf ''IVX'', Plus)],
                  lit ''Schedule'' @ ws @ [(OneOf ''IVX'', Plus)]],
      structure_elements = [''articles'', ''parts'', ''schedules''],
      weight_keyword = 3/10, weight_pattern = 5/10, weight_structure = 2/10\<rparr>"

definition constitutional_amendment_criteria :: doc_criteria where
  "constitutional_amendment_criteria =
     \<lparr>keyword_terms = [''constitutional amendment'', ''amendment act'',
                  ''constitution amendment'', ''amending''],
      patterns = [lit ''Constitution'' @ ws @ lit ''('' @ [(NoneOf '')'', Plus)] @ ws
                  @ lit ''Amendment)'' @ ws @ lit ''Act'',
                  words [''Amendment'', ''Act''] @ ws @ digit @ digit @ digit @ digit,
                  words [''Article'', ''368'']],
      structure_elements = [''amendment'', ''explanation'', ''commencement''],
      weight_keyword = 4/10, weight_pattern = 4/10, weight_structure = 2/10\<rparr>"

definition supreme_court_judgment_criteria :: doc_criteria where
  "supreme_court_judgment_criteria =
     \<lparr>keyword_terms = [''supreme court'', ''bench'', ''justice'', ''appeal'', ''petition'',
                  ''writ'', ''suo moto''],
      patterns = [words [''Supreme'', ''Court'', ''of'', ''India''],
                  [(Word, Plus)] @ ws @ lit ''v'' @ [(Lit (CHR ''.''), Opt)] @ ws
                  @ [(Word, Plus)],
                  lit ''AIR'' @ ws @ digit @ digit @ digit @ digit @ ws @ lit ''SC'',
                  lit ''Justice'' @ ws @ one_of upper_letters],
      structure_elements = [''case_title'', ''bench'', ''judgment'', ''orders''],
      weight_keyword = 3/10, weight_pattern = 5/10, weight_structure = 2/10\<rparr>"

definition high_court_judgment_criteria :: doc_criteria where
  "high_court_judgment_criteria =
     \<lparr>keyword_terms = [''high court'', ''division bench'', ''single bench'', ''writ petition'',
                  ''appeal''],
      patterns = [words [''High'', ''Court''],
                  words [''Division'', ''Bench''],
                  words [''W.P.'', ''No''],
                  words [''Criminal'', ''Appeal'']],
      structure_elements = [''case_details'', ''facts'', ''judgment'', ''order''],
      weight_keyword = 3/10, weight_pattern = 4/10, weight_structure = 3/10\<rparr>"

definition privacy_policy_criteria :: doc_criteria where
  "privacy_policy_criteria =
     \<lparr>keyword_terms = [''privacy policy'', ''data collection'', ''personal information'',
                  ''cookies'', ''data processing''],
      patterns = [words [''Privacy'', ''Policy''],
                  words [''Data'', ''Protection''],
                  words [''Personal'', ''Data''],
                  words [''Cookie'', ''Policy'']],
      structure_elements = [''collection'', ''usage'', ''sharing'', ''rights''],
      weight_keyword = 4/10, weight_pattern = 3/10, weight_structure = 3/10\<rparr>"

definition dpdpa_compliance_document_criteria :: doc_criteria where
  "dpdpa_compliance_document_criteria =
     \<lparr>keyword_terms = [''dpdpa'', ''digital personal data protection act'', ''data fiduciary'',
                  ''data principal'', ''consent''],
      patterns = [words [''DPDPA'', ''2023''],
                  words [''Data'', ''Fiduciary''],
                  words [''Data'', ''Principal''],
                  words [''Digital'', ''Personal'', ''Data'']],
      structure_elements = [''compliance'', ''procedures'', ''rights'', ''obligations''],
      weight_keyword = 5/10, weight_pattern = 3/10, weight_structure = 2/10\<rparr>"

definition service_agreement_criteria :: doc_criteria where
  "service_agreement_criteria =
     \<lparr>keyword_terms = [''service agreement'', ''services'', ''contractor'', ''client'',
                  ''deliverables''],
      patterns = [words [''Service'', ''Agreement''],
                  words [''Statement'', ''of'', ''Work''],
                  lit ''Deliverables'',
                  words [''Service'', ''Level'']],
      structure_elements = [''scope'', ''deliverables'', ''payment'', ''termination''],
      weight_keyword = 4/10, weight_pattern = 3/10, weight_structure = 3/10\<rparr>"

definition employment_contract_criteria :: doc_criteria where
  "employment_contract_criteria =
     \<lparr>keyword_terms = [''employment'', ''employee'', ''employer'', ''salary'', ''designation'',
                  ''terms of employment''],
      patterns = [words [''Employment'', ''Agreement''],
                  words [''Terms'', ''of'', ''Employment''],
                  words [''Job'', ''Description''],
                  lit ''Compensation''],
      structure_elements = [''position'', ''duties'', ''compensation'', ''termination''],
      weight_keyword = 4/10, weight_pattern = 3/10, weight_structure = 3/10\<rparr>"

definition general_legal_document_criteria :: doc_criteria where
  "general_legal_document_criteria =
     \<lparr>keyword_terms = [''legal'', ''law'', ''agreement'', ''contract'', ''terms''],
      patterns = [lit ''Agreement'', lit ''Contract'', lit ''Terms'', lit ''Legal''],
      structure_elements = [''parties'', ''terms'', ''obligations''],
      weight_keyword = 3/10, weight_pattern = 3/10, weight_structure = 4/10\<rparr>"

definition document_patterns :: "(string \<times> doc_criteria) list" where
  "document_patterns =
    [(''government_notification'', government_notification_criteria),
     (''office_memorandum'', office_memorandum_criteria),
     (''recruitment_rules'', recruitment_rules_criteria),
     (''constitutional_document'', constitutional_document_criteria),
     (''constitutional_amendment'', constitutional_amendment_criteria),
     (''supreme_court_judgment'', supreme_court_judgment_criteria),
     (''high_court_judgment'', high_court_judgment_criteria),
     (''privacy_policy'', privacy_policy_criteria),
     (''dpdpa_compliance_document'', dpdpa_compliance_document_criteria),
     (''service_agreement'', service_agreement_criteria),
     (''employment_contract'', employment_contract_criteria),
     (''general_legal_document'', general_legal_document_criteria)]"

definition indian_legal_indicator_patterns :: "(string \<times> regex list) list" where
  "indian_legal_indicator_patterns =
    [(''constitutional_markers'',
       [lit ''Article'' @ ws @ digits,
        words [''Constitution'', ''of'', ''India''],
        words [''Fundamental'', ''Rights''],
        words [''Directive'', ''Principles''],
        words [''Supreme'', ''Court''],
        words [''High'', ''Court'']]),
     (''indian_statutes'',
       [words [''Indian'', ''Penal'', ''Code''],
        words [''Companies'', ''Act''],
        words [''Contract'', ''Act''],
        words [''DPDPA'', ''2023''],
        words [''IT'', ''Act''],
        words [''Consumer'', ''Protection'', ''Act'']]),
     (''government_indicators'',
       [words [''Government'', ''of'', ''India''],
        words [''Ministry'', ''of''],
        words [''Central'', ''Government''],
        words [''State'', ''Government''],
        words [''Gazette'', ''of'', ''India'']]),
     (''legal_concepts'',
       [lit ''whereas'', lit ''hereby'', words [''provided'', ''that''],
        lit ''notwithstanding'', words [''subject'', ''to''],
        words [''in'', ''exercise'', ''of'']])]"

definition default_confidence_threshold :: real where
  "default_confidence_threshold = 4/10"

definition confidence_thresholds :: "(string \<times> real) list" where
  "confidence_thresholds =
    [(''government_notification'', 7/10),
     (''constitutional_document'', 6/10),
     (''supreme_court_judgment'', 8/10),
     (''privacy_policy'', 6/10),
     (''dpdpa_compliance_document'', 8/10),
     (''employment_contract'', 5/10),
     (''service_agreement'', 5/10),
     (''default'', default_confidence_threshold)]"

subsection \<open>Per-type scoring\<close>

definition calculate_keyword_score :: "string \<Rightarrow> string list \<Rightarrow> real" where
  "calculate_keyword_score text_lower kws =
     (if kws = [] then 0
      else real (length (filter (\<lambda>k. str_in (py_lower k) text_lower) kws))
           / real (length kws))"

definition calculate_pattern_score :: "string \<Rightarrow> regex list \<Rightarrow> real" where
  "calculate_pattern_score text pats =
     (if pats = [] then 0
      else real (length (filter (\<lambda>p. re_search p text) pats)) / real (length pats))"

definition calculate_structure_score :: "string \<Rightarrow> string list \<Rightarrow> real" where
  "calculate_structure_score text_lower elems =
     (if elems = [] then 0
      else real (length (filter (\<lambda>e. str_in (py_lower e) text_lower) elems))
           / real (length elems))"

text \<open>
  \<^verbatim>\<open>_calculate_indian_legal_bonus\<close>: 0.1 for every indicator category with a matching
  pattern (the inner loop breaks at the first match), capped at 0.5.
\<close>

definition calculate_indian_legal_bonus :: "string \<Rightarrow> real" where
  "calculate_indian_legal_bonus text =
     min (5/10)
       (fold (\<lambda>entry bonus. if list_ex (\<lambda>p. re_search p text) (snd entry)
                              then bonus + 1/10 else bonus)
          indian_legal_indicator_patterns 0)"

text \<open>
  The body of the loop of \<^verbatim>\<open>classify_with_confidence\<close> for one document type: the
  weighted sum, the length factor, and the value stored in \<^verbatim>\<open>classification_scores\<close>.
  The \<^verbatim>\<open>except\<close> branch is not modelled: with tables of this shape the body does not
  raise.
\<close>

definition weighted_final_score :: "string \<Rightarrow> doc_criteria \<Rightarrow> real" where
  "weighted_final_score text cr =
     calculate_keyword_score (py_lower text) (keyword_terms cr) * weight_keyword cr
     + calculate_pattern_score text (patterns cr) * weight_pattern cr
     + calculate_structure_score (py_lower text) (structure_elements cr) * weight_structure cr
     + calculate_indian_legal_bonus text * (1/10)"

definition length_factor :: "string \<Rightarrow> real" where
  "length_factor text = min 1 (real (length (py_split text)) / 100)"

definition type_score :: "string \<Rightarrow> doc_criteria \<Rightarrow> real" where
  "type_score text cr = min 1 (weighted_final_score text cr * length_factor text)"

definition classification_scores :: "string \<Rightarrow> (string \<times> real) list" where
  "classification_scores text =
     fold (\<lambda>entry d. dict_set (fst entry) (type_score text (snd entry)) d)
       document_patterns []"

subsection \<open>Classification\<close>

text \<open>
  \<^verbatim>\<open>max(d, key=d.get)\<close>: the first key, in iteration order, whose value no other key's
  value exceeds; a later key replaces the running best only with a strictly greater
  value.
\<close>

fun max_from :: "string \<times> real \<Rightarrow> (string \<times> real) list \<Rightarrow> string \<times> real" where
  "max_from best [] = best"
| "max_from best (kv # rest) = max_from (if snd kv > snd best then kv else best) rest"

definition threshold_of :: "string \<Rightarrow> real" where
  "threshold_of doc_type =
     (case dict_get confidence_thresholds doc_type of
        Some t \<Rightarrow> t
      | None \<Rightarrow> default_confidence_threshold)"

definition classify_with_confidence :: "string \<Rightarrow> string \<times> real \<times> (string \<times> real) list" where
  "classify_with_confidence text =
     (if text = [] \<or> length (py_strip text) < 10 then (''unknown'', 0, [])
      else
        (let scores = classification_scores text
         in case scores of
              [] \<Rightarrow> (''unknown'', 0, [])
            | kv # rest \<Rightarrow>
                (let best = max_from kv rest;
                     best_type = fst best;
                     best_confidence = snd best
                 in if best_confidence < threshold_of best_type
                    then (if best_confidence > 2/10
                          then (''general_legal_document'', best_confidence, scores)
                          else (''unknown'', best_confidence, scores))
                    else (best_type, best_confidence, scores))))"

text \<open>
  The winning entry that \<^verbatim>\<open>classify_with_confidence\<close> computes once the input has passed
  the guard: \<^verbatim>\<open>best_type\<close> and \<^verbatim>\<open>best_confidence\<close> before the threshold is applied.
\<close>

definition winner :: "string \<Rightarrow> string \<times> real" where
  "winner text =
     (case classification_scores text of
        [] \<Rightarrow> (''unknown'', 0)
      | kv # rest \<Rightarrow> max_from kv rest)"

text \<open>
  The per-type score as the specification words it: the weighted sum clamped to the unit
  interval first, the length factor applied afterwards.
\<close>

definition spec_type_score :: "string \<Rightarrow> doc_criteria \<Rightarrow> real" where
  "spec_type_score text cr =
     min 1 (max 0 (weighted_final_score text cr)) * length_factor text"

subsection \<open>Example inputs\<close>

text \<open>
  A text of 5 words and 41 characters; a text of 8 words in which every keyword, pattern
  and structure term of \<^verbatim>\<open>general_legal_document\<close> occurs, together with \<^verbatim>\<open>whereas\<close>;
  the latter padded to 21 words; a text of 5 words and 29 characters in which nothing of
  the tables occurs; and a \<^verbatim>\<open>category_scores\<close> map whose only entry is a
  \<^verbatim>\<open>dpdpa_compliance\<close> result with score 87.
\<close>

definition dpdpa_scored_87 :: "(string \<times> category_score) list" where
  "dpdpa_scored_87 =
     [(''dpdpa_compliance'',
       \<lparr>score = 87, issues = [], recommendations = [], criterion_scores = [],
        category = ''dpdpa_compliance'', framework = ''dpdpa_compliance''\<rparr>)]"

definition five_word_text :: string where
  "five_word_text = ''government of india notification ministry''"

definition all_matching_text :: string where
  "all_matching_text = ''legal law agreement contract terms parties obligations whereas''"

definition unmatched_text :: string where
  "unmatched_text = ''aaaaa bbbbb ccccc ddddd eeeee''"

definition padded_text :: string where
  "padded_text = ''legal law agreement contract terms parties obligations whereas a a a a a a a a a a a a a''"


section \<open>Properties of the risk tables\<close>

lemma risk_type_constitutional:
  "risk_type_of ''constitutional_compliance'' = ''constitutional_risk''"
  by (simp add: risk_type_of_def)

lemma risk_type_dpdpa: "risk_type_of ''dpdpa_compliance'' = ''dpdpa_risk''"
  by (simp add: risk_type_of_def)

lemma thresholds_for_cases:
  "thresholds_for rt = (if rt = ''constitutional_risk'' then
       [(''very_low'', 90), (''low'', 75), (''medium'', 60), (''high'', 40), (''very_high'', 0)]
     else if rt = ''privacy_risk'' then
       [(''very_low'', 85), (''low'', 70), (''medium'', 55), (''high'', 35), (''very_high'', 0)]
     else if rt = ''compliance_risk'' then
       [(''very_low'', 88), (''low'', 73), (''medium'', 58), (''high'', 38), (''very_high'', 0)]
     else overall_risk_thresholds)"
  by (simp add: thresholds_for_def risk_thresholds_def)

lemma thresholds_descending: "sorted_wrt (>) (map snd (thresholds_for rt))"
  by (simp add: thresholds_for_cases overall_risk_thresholds_def)

lemma first_level_highest_met:
  assumes "sorted_wrt (>) (map snd tbl)"
    and "(lvl, t) \<in> set tbl" and "t \<le> s"
    and "\<And>l' t'. (l', t') \<in> set tbl \<Longrightarrow> t' \<le> s \<Longrightarrow> t' \<le> t"
  shows "first_level tbl s = lvl"
  using assms
proof (induction tbl)
  case Nil
  then show ?case by simp
next
  case (Cons e tbl)
  obtain l0 t0 where e: "e = (l0, t0)" by (cases e)
  show ?case
  proof (cases "t0 \<le> s")
    case True
    have "t0 \<le> t" using Cons.prems(4)[of l0 t0] True e by simp
    moreover have "t \<le> t0" using Cons.prems(1,2) e by force
    ultimately have "t0 = t" by simp
    moreover have "l0 = lvl"
    proof (rule ccontr)
      assume "l0 \<noteq> lvl"
      then have "(lvl, t) \<in> set tbl" using Cons.prems(2) e by auto
      then have "t < t0" using Cons.prems(1) e by force
      with \<open>t0 = t\<close> show False by simp
    qed
    ultimately show ?thesis using True e by simp
  next
    case False
    then have "(lvl, t) \<in> set tbl" using Cons.prems(2,3) e by auto
    moreover have "sorted_wrt (>) (map snd tbl)" using Cons.prems(1) by simp
    ultimately have "first_level tbl s = lvl"
      using Cons.IH Cons.prems(3,4) by auto
    then show ?thesis using False e by simp
  qed
qed

text \<open>
  C8. Every risk table lists its thresholds from highest to lowest, \<open>get_risk_level\<close>
  returns the level of the highest threshold the score meets or exceeds (the first one
  met in the scan), and for the category \<^verbatim>\<open>constitutional_compliance\<close> a score of exactly
  90 gives \<^verbatim>\<open>very_low\<close> while 89.9 gives \<^verbatim>\<open>low\<close>.
\<close>

theorem risk_level_first_threshold_met:
  "sorted_wrt (>) (map snd (thresholds_for rt))
   \<and> ((lvl, t) \<in> set (thresholds_for rt) \<and> t \<le> s
        \<and> (\<forall>e \<in> set (thresholds_for rt). snd e \<le> s \<longrightarrow> snd e \<le> t)
       \<longrightarrow> get_risk_level rt s = lvl)
   \<and> category_risk_level ''constitutional_compliance'' 90 = ''very_low''
   \<and> category_risk_level ''constitutional_compliance'' (899/10) = ''low''"
proof (intro conjI impI)
  show "sorted_wrt (>) (map snd (thresholds_for rt))" by (rule thresholds_descending)
next
  assume a: "(lvl, t) \<in> set (thresholds_for rt) \<and> t \<le> s
        \<and> (\<forall>e \<in> set (thresholds_for rt). snd e \<le> s \<longrightarrow> snd e \<le> t)"
  have "first_level (thresholds_for rt) s = lvl"
  proof (rule first_level_highest_met[OF thresholds_descending])
    show "(lvl, t) \<in> set (thresholds_for rt)" using a by simp
    show "t \<le> s" using a by simp
    show "\<And>l' t'. (l', t') \<in> set (thresholds_for rt) \<Longrightarrow> t' \<le> s \<Longrightarrow> t' \<le> t"
      using a by force
  qed
  then show "get_risk_level rt s = lvl" by (simp add: get_risk_level_def)
next
  show "category_risk_level ''constitutional_compliance'' 90 = ''very_low''"
    by (simp add: category_risk_level_def risk_type_constitutional get_risk_level_def
        thresholds_for_cases)
next
  show "category_risk_level ''constitutional_compliance'' (899/10) = ''low''"
    by (simp add: category_risk_level_def risk_type_constitutional get_risk_level_def
        thresholds_for_cases)
qed

theorem risk_level_first_threshold_met_witness:
  "get_risk_level ''privacy_risk'' 60 = ''medium''"
proof -
  have m: "(''medium'', 55) \<in> set (thresholds_for ''privacy_risk'')"
    by (simp add: thresholds_for_cases)
  have h: "\<forall>e \<in> set (thresholds_for ''privacy_risk''). snd e \<le> 60 \<longrightarrow> snd e \<le> 55"
    by (simp add: thresholds_for_cases)
  show ?thesis
    using risk_level_first_threshold_met[of "''privacy_risk''" "''medium''" 55 60] m h
    by simp
qed

lemma dpdpa_risk_level_cases:
  "dict_get risk_thresholds ''dpdpa_risk'' = None"
  "category_risk_level ''dpdpa_compliance'' s = get_risk_level ''overall_risk'' s"
  "category_risk_level ''dpdpa_compliance'' s =
       (if s \<ge> 87 then ''very_low'' else if s \<ge> 72 then ''low''
        else if s \<ge> 57 then ''medium'' else if s \<ge> 37 then ''high''
        else ''very_high'')"
  "get_risk_level ''compliance_risk'' 87 = ''low''"
  by (simp_all add: category_risk_level_def risk_type_dpdpa get_risk_level_def
      thresholds_for_cases overall_risk_thresholds_def risk_thresholds_def)

section \<open>Properties of the scoring loop\<close>

lemma map_framework_cases:
  "map_framework_to_category fw = ''constitutional_compliance''
   \<or> map_framework_to_category fw = ''privacy_compliance''
   \<or> map_framework_to_category fw = ''dpdpa_compliance''"
  by (simp add: map_framework_to_category_def)


lemma acc_score_fold:
  "acc_score (fold (criterion_step a fw) cs acc) =
     acc_score acc + sum_list (map (\<lambda>e. score (score_criterion (fst e) (snd e) a fw) * weight (snd e)) cs)"
  by (induction cs arbitrary: acc) (simp_all add: criterion_step_def Let_def)

lemma score_criterion_fw: "score (score_criterion n cfg a fw) = score (score_criterion n cfg a fw')"
  by (simp add: score_criterion_def Let_def)

lemma score_framework_category_Some:
  "\<exists>e. score_framework_category fw a = Some e"
  using map_framework_cases[of fw]
  by (auto simp: score_framework_category_def scoring_criteria_def Let_def)

lemma score_framework_category_same:
  assumes "map_framework_to_category f1 = map_framework_to_category f2"
  shows "map_option score (score_framework_category f1 a) = map_option score (score_framework_category f2 a)"
proof -
  have "\<And>cs. sum_list (map (\<lambda>e. score (score_criterion (fst e) (snd e) a f1) * weight (snd e)) cs)
      = sum_list (map (\<lambda>e. score (score_criterion (fst e) (snd e) a f2) * weight (snd e)) cs)"
    using score_criterion_fw[of _ _ a f1 f2] by simp
  then show ?thesis using assms
    by (simp add: score_framework_category_def Let_def acc_score_fold split: option.splits)
qed

lemma framework_points_same:
  "map_framework_to_category f1 = map_framework_to_category f2 \<Longrightarrow>
   framework_points a f1 = framework_points a f2"
  using score_framework_category_same[of f1 f2 a] score_framework_category_Some[of f1 a]
    score_framework_category_Some[of f2 a]
  by (auto simp: framework_points_def)

lemma framework_step_fields:
  "total_weighted_score (framework_step a fw acc) =
     total_weighted_score acc
       + framework_points a fw * get_category_weight (map_framework_to_category fw)"
  "total_weight (framework_step a fw acc) =
     total_weight acc + get_category_weight (map_framework_to_category fw)"
  "\<exists>e. score e = framework_points a fw \<and>
     category_scores (framework_step a fw acc) =
       dict_set (map_framework_to_category fw) e (category_scores acc)"
  using score_framework_category_Some[of fw a]
  by (auto simp: framework_step_def framework_points_def Let_def)


lemma dict_get_set: "dict_get (dict_set k v d) k' = (if k' = k then Some v else dict_get d k')"
  by (induction d) auto

lemma dict_set_fresh: "k \<notin> fst ` set d \<Longrightarrow> dict_set k v d = d @ [(k, v)]"
  by (induction d) auto

lemma entry_score_fold:
  assumes "\<And>f. f \<in> set fs \<Longrightarrow> map_framework_to_category f \<noteq> c"
  shows "dict_get (category_scores (fold (framework_step a) fs acc)) c = dict_get (category_scores acc) c"
  using assms
proof (induction fs arbitrary: acc)
  case Nil
  then show ?case by simp
next
  case (Cons f fs)
  obtain e where e: "category_scores (framework_step a f acc) =
       dict_set (map_framework_to_category f) e (category_scores acc)"
    using framework_step_fields(3)[of a f acc] by blast
  have "dict_get (category_scores (fold (framework_step a) fs (framework_step a f acc))) c
      = dict_get (category_scores (framework_step a f acc)) c"
    using Cons.IH[of "framework_step a f acc"] Cons.prems by simp
  also have "\<dots> = dict_get (category_scores acc) c"
    using e Cons.prems[of f] by (simp add: dict_get_set)
  finally show ?case by simp
qed

lemma entry_score_in_fold:
  assumes "f \<in> set fs"
  shows "entry_score (category_scores (fold (framework_step a) fs acc)) (map_framework_to_category f)
         = framework_points a f"
  using assms
proof (induction fs arbitrary: acc rule: rev_induct)
  case Nil
  then show ?case by simp
next
  case (snoc g fs)
  let ?acc = "fold (framework_step a) fs acc"
  obtain e where e: "score e = framework_points a g"
      "category_scores (framework_step a g ?acc) =
       dict_set (map_framework_to_category g) e (category_scores ?acc)"
    using framework_step_fields(3)[of a g ?acc] by blast
  show ?case
  proof (cases "map_framework_to_category f = map_framework_to_category g")
    case True
    then show ?thesis using e framework_points_same[OF True, of a]
      by (simp add: entry_score_def dict_get_set)
  next
    case False
    then have "f \<in> set fs" using snoc.prems by auto
    then show ?thesis using snoc.IH[of acc] e False
      by (simp add: entry_score_def dict_get_set)
  qed
qed



lemma result_category_scores_eq:
  "result_category_scores (calculate_comprehensive_score a fs) =
     category_scores (scoring_loop a fs)"
  by (simp add: calculate_comprehensive_score_def Let_def)



lemmas scoring_defs = score_framework_category_def scoring_criteria_def criterion_step_def
    score_criterion_def score_fundamental_rights_protection_def
    score_privacy_rights_compliance_def score_dpdpa_lawful_basis_def default_scoring_method_def
    map_framework_to_category_def get_category_weight_def Let_def






lemma constitutional_points:
  "map_framework_to_category fw = ''constitutional_compliance'' \<Longrightarrow>
   \<exists>e. score_framework_category fw a = Some e \<and> category e = ''constitutional_compliance''
     \<and> framework e = fw
     \<and> score e = min 100 (max 0 (score (score_fundamental_rights_protection a) * (3/10)
                      + 65 * (3/10) + 65 * (4/10)))"
  by (simp add: score_framework_category_def scoring_criteria_def criterion_step_def
      score_criterion_def default_scoring_method_def Let_def)

lemma unknown_framework_category:
  "fw \<notin> {''constitutional_analysis'', ''privacy_rights_analysis'', ''dpdpa_compliance'',
          ''administrative_law'', ''general_legal_analysis''} \<Longrightarrow>
   map_framework_to_category fw = ''constitutional_compliance''"
  by (simp add: map_framework_to_category_def)

lemma constitutional_weight: "get_category_weight ''constitutional_compliance'' = 4/10"
  by (simp add: get_category_weight_def scoring_criteria_def)




text \<open>
  C9. A framework name outside the fixed mapping is mapped to
  \<^verbatim>\<open>constitutional_compliance\<close> and scored there with all three criteria; in the loop it
  adds that score times 0.4 to the weighted sum and 0.4 to the total weight, its entry is
  stored under the constitutional category, and applied alone it gives the overall score.
\<close>

theorem unknown_framework_scored_as_constitutional:
  assumes "fw \<notin> {''constitutional_analysis'', ''privacy_rights_analysis'', ''dpdpa_compliance'',
          ''administrative_law'', ''general_legal_analysis''}"
  shows "map_framework_to_category fw = ''constitutional_compliance''
    \<and> (\<exists>e. score_framework_category fw a = Some e
          \<and> category e = ''constitutional_compliance''
          \<and> score e = min 100 (max 0 (score (score_fundamental_rights_protection a) * (3/10)
                      + 65 * (3/10) + 65 * (4/10)))
          \<and> total_weighted_score (scoring_loop a (fs @ [fw])) =
              total_weighted_score (scoring_loop a fs) + score e * (4/10)
          \<and> total_weight (scoring_loop a (fs @ [fw])) = total_weight (scoring_loop a fs) + 4/10
          \<and> dict_get (category_scores (scoring_loop a (fs @ [fw]))) ''constitutional_compliance''
              = Some e
          \<and> overall_score (calculate_comprehensive_score a [fw]) = score e)"
proof -
  have c: "map_framework_to_category fw = ''constitutional_compliance''"
    using assms by (rule unknown_framework_category)
  obtain e where e: "score_framework_category fw a = Some e"
      "category e = ''constitutional_compliance''"
      "score e = min 100 (max 0 (score (score_fundamental_rights_protection a) * (3/10)
                      + 65 * (3/10) + 65 * (4/10)))"
    using constitutional_points[OF c, of a] by blast
  have step: "scoring_loop a (fs @ [fw]) = framework_step a fw (scoring_loop a fs)"
    by (simp add: scoring_loop_def)
  have s1: "total_weighted_score (scoring_loop a (fs @ [fw])) =
              total_weighted_score (scoring_loop a fs) + score e * (4/10)"
    by (simp add: step framework_step_def e(1) c constitutional_weight Let_def)
  have s2: "total_weight (scoring_loop a (fs @ [fw])) = total_weight (scoring_loop a fs) + 4/10"
    by (simp add: step framework_step_def e(1) c constitutional_weight Let_def)
  have s3: "dict_get (category_scores (scoring_loop a (fs @ [fw]))) ''constitutional_compliance''
              = Some e"
    by (simp add: step framework_step_def e(1) c Let_def dict_get_set)
  have s4: "overall_score (calculate_comprehensive_score a [fw]) = score e"
    by (simp add: calculate_comprehensive_score_def scoring_loop_def framework_step_def e(1) c
        constitutional_weight Let_def)
  show ?thesis using c e s1 s2 s3 s4 by blast
qed

theorem unknown_framework_scored_as_constitutional_witness:
  "map_framework_to_category ''contract_law_analysis'' = ''constitutional_compliance''
   \<and> overall_score (calculate_comprehensive_score empty_analysis [''contract_law_analysis'']) = 127/2"
proof -
  have h: "''contract_law_analysis'' \<notin> {''constitutional_analysis'', ''privacy_rights_analysis'',
      ''dpdpa_compliance'', ''administrative_law'', ''general_legal_analysis''}"
    by simp
  have r: "score (score_fundamental_rights_protection empty_analysis) = 60"
    by (simp add: score_fundamental_rights_protection_def empty_analysis_def Let_def)
  show ?thesis
    using unknown_framework_scored_as_constitutional[OF h, of empty_analysis "[]"] r
    by auto
qed

section \<open>Risk assessment of the categories\<close>

lemma dict_set_keys: "fst ` set (dict_set k v d) = insert k (fst ` set d)"
proof (induction d)
  case Nil
  then show ?case by simp
next
  case (Cons x d)
  obtain k' v' where x: "x = (k', v')" by (cases x)
  show ?case using Cons.IH x by (cases "k = k'") auto
qed

lemma dict_set_keys_distinct:
  "distinct (map fst d) \<Longrightarrow> distinct (map fst (dict_set k v d))"
proof (induction d)
  case Nil
  then show ?case by simp
next
  case (Cons x d)
  obtain k' v' where x: "x = (k', v')" by (cases x)
  show ?case
  proof (cases "k = k'")
    case True
    then show ?thesis using Cons.prems x by simp
  next
    case False
    have "k' \<notin> fst ` set (dict_set k v d)"
      using Cons.prems x False by (simp add: dict_set_keys)
    then show ?thesis using Cons x False by simp
  qed
qed

lemma dict_get_None_iff: "dict_get d k = None \<longleftrightarrow> k \<notin> fst ` set d"
proof (induction d)
  case Nil
  then show ?case by simp
next
  case (Cons x d)
  obtain k' v' where x: "x = (k', v')" by (cases x)
  show ?case using Cons.IH x by (cases "k = k'") simp_all
qed

lemma risk_step_category_risks:
  "category_risks (risk_step x ra) =
     dict_set (fst x)
       \<lparr>risk_level = category_risk_level (fst x) (score (snd x)),
        risk_score = score (snd x), risk_issues = issues (snd x)\<rparr>
       (category_risks ra)"
  by (simp add: risk_step_def Let_def)

lemma scoring_loop_keys_distinct:
  "distinct (map fst (category_scores acc)) \<Longrightarrow>
   distinct (map fst (category_scores (fold (framework_step a) fs acc)))"
proof (induction fs arbitrary: acc)
  case Nil
  then show ?case by simp
next
  case (Cons f fs)
  obtain e where "category_scores (framework_step a f acc) =
       dict_set (map_framework_to_category f) e (category_scores acc)"
    using framework_step_fields(3)[of a f acc] by blast
  then have "distinct (map fst (category_scores (framework_step a f acc)))"
    using Cons.prems by (simp add: dict_set_keys_distinct)
  then show ?case using Cons.IH by simp
qed

lemma scoring_loop_has_entry:
  assumes "f \<in> set fs"
  shows "\<exists>e. dict_get (category_scores (fold (framework_step a) fs acc))
                (map_framework_to_category f) = Some e"
  using assms
proof (induction fs arbitrary: acc rule: rev_induct)
  case Nil
  then show ?case by simp
next
  case (snoc g fs)
  let ?acc = "fold (framework_step a) fs acc"
  obtain e where e: "category_scores (framework_step a g ?acc) =
       dict_set (map_framework_to_category g) e (category_scores ?acc)"
    using framework_step_fields(3)[of a g ?acc] by blast
  show ?case
  proof (cases "map_framework_to_category f = map_framework_to_category g")
    case True
    then show ?thesis using e by (simp add: dict_get_set)
  next
    case False
    then have "f \<in> set fs" using snoc.prems by auto
    then show ?thesis using snoc.IH[of acc] e False by (simp add: dict_get_set)
  qed
qed

text \<open>
  The loop over \<^verbatim>\<open>category_scores.items()\<close>: every category of the map gets the level of
  its own score, its score and its issues. The keys of a dictionary are distinct.
\<close>

lemma risk_fold_lookup:
  assumes "distinct (map fst cs)"
  shows "dict_get (category_risks (fold risk_step cs ra)) c =
     (case dict_get cs c of
        Some e \<Rightarrow> Some \<lparr>risk_level = category_risk_level c (score e), risk_score = score e,
                        risk_issues = issues e\<rparr>
      | None \<Rightarrow> dict_get (category_risks ra) c)"
  using assms
proof (induction cs arbitrary: ra)
  case Nil
  then show ?case by simp
next
  case (Cons x xs)
  have d: "distinct (map fst xs)" using Cons.prems by simp
  note ih = Cons.IH[OF d, of "risk_step x ra"]
  obtain k e where x: "x = (k, e)" by (cases x)
  show ?case
  proof (cases "c = k")
    case True
    then have "c \<notin> fst ` set xs" using Cons.prems x by auto
    then have n: "dict_get xs c = None" by (simp add: dict_get_None_iff)
    show ?thesis using ih n True x
      by (simp add: risk_step_category_risks dict_get_set)
  next
    case False
    then show ?thesis using ih x
      by (simp add: risk_step_category_risks dict_get_set split: option.splits)
  qed
qed

lemma assess_category_risk:
  assumes "distinct (map fst cs)" and "dict_get cs c = Some e"
  shows "dict_get (category_risks (assess_comprehensive_risk cs overall)) c =
     Some \<lparr>risk_level = category_risk_level c (score e), risk_score = score e,
           risk_issues = issues e\<rparr>"
  using risk_fold_lookup[OF assms(1), of _ c] assms(2)
  by (simp add: assess_comprehensive_risk_def)

text \<open>
  C10. The key derived for the category \<^verbatim>\<open>dpdpa_compliance\<close> is \<^verbatim>\<open>dpdpa_risk\<close>, which the
  threshold table does not hold. So in the risk assessment of any category map with a
  \<^verbatim>\<open>dpdpa_compliance\<close> entry, and in the result of \<^verbatim>\<open>calculate_comprehensive_score\<close>
  whenever \<^verbatim>\<open>dpdpa_compliance\<close> is among the applied frameworks, that category's risk
  level is the one of the \<^verbatim>\<open>overall_risk\<close> thresholds 87, 72, 57, 37 at its score; a
  score of 87 is \<^verbatim>\<open>very_low\<close> there and \<^verbatim>\<open>low\<close> under the \<^verbatim>\<open>compliance_risk\<close> table.
\<close>

theorem dpdpa_category_uses_overall_thresholds:
  "risk_type_of ''dpdpa_compliance'' = ''dpdpa_risk''
   \<and> dict_get risk_thresholds ''dpdpa_risk'' = None
   \<and> (distinct (map fst cs) \<and> dict_get cs ''dpdpa_compliance'' = Some e \<longrightarrow>
        dict_get (category_risks (assess_comprehensive_risk cs overall)) ''dpdpa_compliance''
          = Some \<lparr>risk_level = get_risk_level ''overall_risk'' (score e),
                  risk_score = score e, risk_issues = issues e\<rparr>)
   \<and> (''dpdpa_compliance'' \<in> set fs \<longrightarrow>
        (\<exists>d. dict_get (result_category_scores (calculate_comprehensive_score a fs))
                 ''dpdpa_compliance'' = Some d
             \<and> dict_get (category_risks (result_risk_assessment
                            (calculate_comprehensive_score a fs))) ''dpdpa_compliance''
                 = Some \<lparr>risk_level = get_risk_level ''overall_risk'' (score d),
                         risk_score = score d, risk_issues = issues d\<rparr>))
   \<and> category_risk_level ''dpdpa_compliance'' s = get_risk_level ''overall_risk'' s
   \<and> category_risk_level ''dpdpa_compliance'' s =
       (if s \<ge> 87 then ''very_low'' else if s \<ge> 72 then ''low''
        else if s \<ge> 57 then ''medium'' else if s \<ge> 37 then ''high''
        else ''very_high'')
   \<and> category_risk_level ''dpdpa_compliance'' 87 = ''very_low''
   \<and> get_risk_level ''compliance_risk'' 87 = ''low''"
proof (intro conjI impI)
  show "risk_type_of ''dpdpa_compliance'' = ''dpdpa_risk''" by (rule risk_type_dpdpa)
  show "dict_get risk_thresholds ''dpdpa_risk'' = None" by (rule dpdpa_risk_level_cases(1))
  show "category_risk_level ''dpdpa_compliance'' s = get_risk_level ''overall_risk'' s"
    by (rule dpdpa_risk_level_cases(2))
  show "category_risk_level ''dpdpa_compliance'' s =
       (if s \<ge> 87 then ''very_low'' else if s \<ge> 72 then ''low''
        else if s \<ge> 57 then ''medium'' else if s \<ge> 37 then ''high''
        else ''very_high'')"
    by (rule dpdpa_risk_level_cases(3))
  show "category_risk_level ''dpdpa_compliance'' 87 = ''very_low''"
    by (simp add: dpdpa_risk_level_cases(3))
  show "get_risk_level ''compliance_risk'' 87 = ''low''" by (rule dpdpa_risk_level_cases(4))
next
  assume h: "distinct (map fst cs) \<and> dict_get cs ''dpdpa_compliance'' = Some e"
  then show "dict_get (category_risks (assess_comprehensive_risk cs overall)) ''dpdpa_compliance''
          = Some \<lparr>risk_level = get_risk_level ''overall_risk'' (score e),
                  risk_score = score e, risk_issues = issues e\<rparr>"
    using assess_category_risk[of cs "''dpdpa_compliance''" e overall]
    by (simp add: dpdpa_risk_level_cases(2))
next
  assume m: "''dpdpa_compliance'' \<in> set fs"
  let ?r = "calculate_comprehensive_score a fs"
  have c: "map_framework_to_category ''dpdpa_compliance'' = ''dpdpa_compliance''"
    by (simp add: map_framework_to_category_def)
  obtain d where d: "dict_get (category_scores (scoring_loop a fs)) ''dpdpa_compliance'' = Some d"
    using scoring_loop_has_entry[OF m, of a] c by (auto simp: scoring_loop_def)
  have dist: "distinct (map fst (category_scores (scoring_loop a fs)))"
    using scoring_loop_keys_distinct[of _ a fs] by (simp add: scoring_loop_def)
  have ra: "result_risk_assessment ?r =
      assess_comprehensive_risk (category_scores (scoring_loop a fs)) (overall_score ?r)"
    by (simp add: calculate_comprehensive_score_def Let_def)
  have "dict_get (category_risks (result_risk_assessment ?r)) ''dpdpa_compliance''
      = Some \<lparr>risk_level = get_risk_level ''overall_risk'' (score d),
              risk_score = score d, risk_issues = issues d\<rparr>"
    unfolding ra using assess_category_risk[OF dist d] by (simp add: dpdpa_risk_level_cases(2))
  then show "\<exists>d. dict_get (result_category_scores ?r) ''dpdpa_compliance'' = Some d
             \<and> dict_get (category_risks (result_risk_assessment ?r)) ''dpdpa_compliance''
                 = Some \<lparr>risk_level = get_risk_level ''overall_risk'' (score d),
                         risk_score = score d, risk_issues = issues d\<rparr>"
    using d by (auto simp: result_category_scores_eq)
qed

theorem dpdpa_category_uses_overall_thresholds_witness:
  "map_option risk_level
     (dict_get (category_risks (assess_comprehensive_risk dpdpa_scored_87 87))
        ''dpdpa_compliance'') = Some ''very_low''
   \<and> map_option risk_level
       (dict_get (category_risks (result_risk_assessment
          (calculate_comprehensive_score empty_analysis [''dpdpa_compliance''])))
          ''dpdpa_compliance'') = Some ''medium''"
proof -
  have h: "distinct (map fst dpdpa_scored_87)
      \<and> dict_get dpdpa_scored_87 ''dpdpa_compliance'' = Some (snd (hd dpdpa_scored_87))"
    by (simp add: dpdpa_scored_87_def)
  have s87: "score (snd (hd dpdpa_scored_87)) = 87" by (simp add: dpdpa_scored_87_def)
  have lv: "get_risk_level ''overall_risk'' 87 = ''very_low''"
    by (simp add: get_risk_level_def thresholds_for_cases overall_risk_thresholds_def)
  have a: "map_option risk_level
     (dict_get (category_risks (assess_comprehensive_risk dpdpa_scored_87 87))
        ''dpdpa_compliance'') = Some ''very_low''"
    using dpdpa_category_uses_overall_thresholds[of dpdpa_scored_87 "snd (hd dpdpa_scored_87)"
        87 "[]" empty_analysis 0] h
    by (simp add: s87 lv)
  have m: "''dpdpa_compliance'' \<in> set [''dpdpa_compliance'']" by simp
  have pts: "framework_points empty_analysis ''dpdpa_compliance'' = 65"
    by (simp add: framework_points_def empty_analysis_def scoring_defs)
  have c: "map_framework_to_category ''dpdpa_compliance'' = ''dpdpa_compliance''"
    by (simp add: map_framework_to_category_def)
  have es: "entry_score (result_category_scores
              (calculate_comprehensive_score empty_analysis [''dpdpa_compliance'']))
              ''dpdpa_compliance'' = 65"
    using entry_score_in_fold[of "''dpdpa_compliance''" "[''dpdpa_compliance'']" empty_analysis]
    by (simp add: result_category_scores_eq scoring_loop_def c pts del: fold_simps)
  have lv2: "get_risk_level ''overall_risk'' 65 = ''medium''"
    by (simp add: get_risk_level_def thresholds_for_cases overall_risk_thresholds_def)
  have b: "map_option risk_level
       (dict_get (category_risks (result_risk_assessment
          (calculate_comprehensive_score empty_analysis [''dpdpa_compliance''])))
          ''dpdpa_compliance'') = Some ''medium''"
    using dpdpa_category_uses_overall_thresholds[of "[]" "snd (hd dpdpa_scored_87)" 0
        "[''dpdpa_compliance'']" empty_analysis 0] m es
    by (auto simp: entry_score_def lv2)
  show ?thesis using a b by simp
qed

section \<open>Properties of the framework selection\<close>

lemma priority_ge_1: "1 \<le> framework_priority f"
  by (simp add: framework_priority_def framework_registry_def)

lemma priority_1: "framework_priority f = 1 \<Longrightarrow> f = ''constitutional_analysis''"
  by (simp add: framework_priority_def framework_registry_def split: if_splits)

lemma priority_const: "framework_priority ''constitutional_analysis'' = 1"
  by (simp add: framework_priority_def framework_registry_def)

lemma set_fold_append_new: "set (fold append_new ys xs) = set xs \<union> set ys"
  by (induction ys arbitrary: xs) (auto simp: append_new_def)

lemma prioritize_nonempty:
  assumes "c \<noteq> []"
  shows "prioritize_and_limit_frameworks c = take 4 (sort_key framework_priority c)"
proof -
  have "length (sort_key framework_priority c) = length c" by (rule length_sort)
  then have "\<not> length (sort_key framework_priority c) < 1" using assms by (cases c) simp_all
  then show ?thesis
    by (simp add: prioritize_and_limit_frameworks_def minimum_frameworks_def
        maximum_frameworks_def Let_def del: sort_key_simps length_sort)
qed

lemma prioritize_empty: "prioritize_and_limit_frameworks [] = [''general_legal_analysis'']"
  by (simp add: prioritize_and_limit_frameworks_def minimum_frameworks_def
        maximum_frameworks_def append_new_def)

lemma selected_eq:
  "selected_frameworks (select_frameworks dt conf ci) =
     prioritize_and_limit_frameworks (combined_frameworks dt conf ci)"
  by (simp add: select_frameworks_def Let_def)

lemma prioritize_length:
  "1 \<le> length (prioritize_and_limit_frameworks c) \<and> length (prioritize_and_limit_frameworks c) \<le> 4"
proof (cases c)
  case Nil
  then show ?thesis by (simp add: prioritize_empty)
next
  case (Cons x xs)
  then have "c \<noteq> []" by simp
  then show ?thesis using Cons by (simp add: prioritize_nonempty del: sort_key_simps)
qed

lemma prioritize_sorted: "sorted (map framework_priority (prioritize_and_limit_frameworks c))"
proof (cases "c = []")
  case True
  then show ?thesis by (simp add: prioritize_empty)
next
  case False
  have "sorted (map framework_priority (sort_key framework_priority c))"
    by (rule sorted_sort_key)
  then have "sorted (take 4 (map framework_priority (sort_key framework_priority c)))"
    by (rule sorted_wrt_take)
  then show ?thesis using False by (simp add: prioritize_nonempty take_map)
qed

lemma prioritize_stable:
  assumes "c \<noteq> []"
  shows "\<exists>rest. sort_key framework_priority c = prioritize_and_limit_frameworks c @ rest
      \<and> sorted (map framework_priority (prioritize_and_limit_frameworks c @ rest))
      \<and> (\<forall>k. filter (\<lambda>f. framework_priority f = k) (prioritize_and_limit_frameworks c @ rest)
              = filter (\<lambda>f. framework_priority f = k) c)"
proof -
  let ?s = "sort_key framework_priority c"
  have a: "?s = prioritize_and_limit_frameworks c @ drop 4 ?s"
    using assms by (simp add: prioritize_nonempty)
  have b: "sorted (map framework_priority ?s)" by (rule sorted_sort_key)
  have c: "\<forall>k. filter (\<lambda>f. framework_priority f = k) ?s = filter (\<lambda>f. framework_priority f = k) c"
    by (simp add: sort_key_stable)
  show ?thesis
    apply (rule exI[of _ "drop 4 ?s"])
    using a b c by metis
qed

lemmas combined_defs = combined_frameworks_def apply_combination_rules_def
  categorize_document_type_def combination_rules_def get_primary_frameworks_def
  get_content_based_frameworks_def framework_registry_def append_new_def no_indicators_def
  Let_def

lemma combined_example:
  "combined_frameworks ''employment_contract'' 1
     (Some (no_indicators\<lparr>privacy_terms := [''personal data''],
                             government_terms := [''ministry'']\<rparr>))
   = [''privacy_rights_analysis'', ''contract_law_analysis'', ''dpdpa_compliance'',
      ''administrative_law'', ''constitutional_analysis'']"
  by (simp add: combined_defs)

lemma combined_unmatched: "combined_frameworks ''circular'' 0 None = []"
  by (simp add: combined_defs)


lemma selected_example:
  "selected_frameworks (select_frameworks ''employment_contract'' 1
        (Some (no_indicators\<lparr>privacy_terms := [''personal data''],
                                government_terms := [''ministry'']\<rparr>)))
   = [''constitutional_analysis'', ''privacy_rights_analysis'', ''dpdpa_compliance'',
      ''administrative_law'']"
  by (simp add: selected_eq combined_example prioritize_and_limit_frameworks_def
      minimum_frameworks_def maximum_frameworks_def framework_priority_def framework_registry_def)

lemma combined_has_constitutional:
  assumes "5/10 \<le> conf"
  shows "''constitutional_analysis'' \<in> set (combined_frameworks dt conf ci)"
  using assms
  by (auto simp: combined_frameworks_def apply_combination_rules_def Let_def set_fold_append_new)

lemma sorted_hd_min:
  assumes "x \<in> set xs"
  shows "framework_priority (hd (sort_key framework_priority xs)) \<le> framework_priority x"
proof -
  let ?s = "sort_key framework_priority xs"
  have ne: "?s \<noteq> []" using assms by (metis empty_iff empty_set set_sort)
  have x: "x \<in> set ?s" using assms by simp
  have srt: "sorted (map framework_priority ?s)" by (rule sorted_sort_key)
  obtain y ys where s: "?s = y # ys" using ne by (cases ?s) auto
  then show ?thesis using srt x by auto
qed


text \<open>
  C6. For every document type, confidence and indicator bundle the selected list has
  between 1 and 4 entries and is sorted by ascending priority. When no framework was
  gathered it is \<^verbatim>\<open>general_legal_analysis\<close> alone; otherwise it is the first
  \<open>min 4 n\<close> entries of the stable sort of the \<open>n\<close> gathered frameworks: it extends to a
  priority-sorted list in which the frameworks of each priority stand in their insertion
  order.
\<close>

theorem selected_frameworks_bounds_and_order:
  "1 \<le> length (selected_frameworks (select_frameworks dt conf ci))
   \<and> length (selected_frameworks (select_frameworks dt conf ci)) \<le> 4
   \<and> framework_count (select_frameworks dt conf ci)
       = length (selected_frameworks (select_frameworks dt conf ci))
   \<and> sorted (map framework_priority (selected_frameworks (select_frameworks dt conf ci)))
   \<and> (combined_frameworks dt conf ci = [] \<longrightarrow>
        selected_frameworks (select_frameworks dt conf ci) = [''general_legal_analysis''])
   \<and> (combined_frameworks dt conf ci \<noteq> [] \<longrightarrow>
        length (selected_frameworks (select_frameworks dt conf ci))
          = min 4 (length (combined_frameworks dt conf ci))
        \<and> (\<exists>rest.
             sorted (map framework_priority
                       (selected_frameworks (select_frameworks dt conf ci) @ rest))
             \<and> (\<forall>k. filter (\<lambda>f. framework_priority f = k)
                        (selected_frameworks (select_frameworks dt conf ci) @ rest)
                      = filter (\<lambda>f. framework_priority f = k) (combined_frameworks dt conf ci))))"
proof (intro conjI impI)
  show "1 \<le> length (selected_frameworks (select_frameworks dt conf ci))"
    using prioritize_length by (simp add: selected_eq)
  show "length (selected_frameworks (select_frameworks dt conf ci)) \<le> 4"
    using prioritize_length by (simp add: selected_eq)
  show "framework_count (select_frameworks dt conf ci)
       = length (selected_frameworks (select_frameworks dt conf ci))"
    by (simp add: select_frameworks_def Let_def)
  show "sorted (map framework_priority (selected_frameworks (select_frameworks dt conf ci)))"
    by (simp add: selected_eq prioritize_sorted)
next
  assume "combined_frameworks dt conf ci = []"
  then show "selected_frameworks (select_frameworks dt conf ci) = [''general_legal_analysis'']"
    by (simp add: selected_eq prioritize_empty)
next
  assume ne: "combined_frameworks dt conf ci \<noteq> []"
  then show "length (selected_frameworks (select_frameworks dt conf ci))
          = min 4 (length (combined_frameworks dt conf ci))"
    by (simp add: selected_eq prioritize_nonempty del: sort_key_simps)
  show "\<exists>rest.
             sorted (map framework_priority
                       (selected_frameworks (select_frameworks dt conf ci) @ rest))
             \<and> (\<forall>k. filter (\<lambda>f. framework_priority f = k)
                        (selected_frameworks (select_frameworks dt conf ci) @ rest)
                      = filter (\<lambda>f. framework_priority f = k) (combined_frameworks dt conf ci))"
    using prioritize_stable[OF ne] unfolding selected_eq by blast
qed

theorem selected_frameworks_bounds_and_order_witness:
  "combined_frameworks ''circular'' 0 None = []
   \<and> selected_frameworks (select_frameworks ''circular'' 0 None) = [''general_legal_analysis'']
   \<and> combined_frameworks ''employment_contract'' 1
        (Some (no_indicators\<lparr>privacy_terms := [''personal data''],
                                government_terms := [''ministry'']\<rparr>)) \<noteq> []
   \<and> length (selected_frameworks (select_frameworks ''employment_contract'' 1
        (Some (no_indicators\<lparr>privacy_terms := [''personal data''],
                                government_terms := [''ministry'']\<rparr>)))) = 4"
  using selected_frameworks_bounds_and_order[of "''circular''" 0 None]
    selected_frameworks_bounds_and_order[of "''employment_contract''" 1
      "Some (no_indicators\<lparr>privacy_terms := [''personal data''],
                                government_terms := [''ministry'']\<rparr>)"]
  by (simp add: combined_example combined_unmatched)


text \<open>
  C7. At a confidence of 0.5 or more \<^verbatim>\<open>constitutional_analysis\<close> is in the selected list
  for every document type and indicator bundle; being the only framework of priority 1
  it is the first entry, so the truncation to four entries keeps it.
\<close>

theorem constitutional_analysis_kept_at_high_confidence:
  assumes "5/10 \<le> conf"
  shows "''constitutional_analysis'' \<in> set (selected_frameworks (select_frameworks dt conf ci))
     \<and> hd (selected_frameworks (select_frameworks dt conf ci)) = ''constitutional_analysis''"
proof -
  let ?c = "combined_frameworks dt conf ci"
  let ?s = "sort_key framework_priority ?c"
  have m: "''constitutional_analysis'' \<in> set ?c" using assms by (rule combined_has_constitutional)
  then have ne: "?c \<noteq> []" by auto
  then have sne: "?s \<noteq> []" by (metis length_sort length_0_conv)
  have "framework_priority (hd ?s) \<le> 1" using sorted_hd_min[OF m] by (simp add: priority_const)
  then have "framework_priority (hd ?s) = 1" using priority_ge_1[of "hd ?s"] by simp
  then have h: "hd ?s = ''constitutional_analysis''" by (rule priority_1)
  have sel: "selected_frameworks (select_frameworks dt conf ci) = take 4 ?s"
    using ne by (simp add: selected_eq prioritize_nonempty)
  have "hd (take 4 ?s) = hd ?s" by simp
  moreover have "hd (take 4 ?s) \<in> set (take 4 ?s)" using sne by (cases ?s) simp_all
  ultimately show ?thesis using h sel by simp
qed

theorem constitutional_analysis_kept_at_high_confidence_witness:
  "(5/10::real) \<le> 1
   \<and> ''constitutional_analysis'' \<in> set (selected_frameworks
        (select_frameworks ''employment_contract'' 1
          (Some (no_indicators\<lparr>privacy_terms := [''personal data''],
                                  government_terms := [''ministry'']\<rparr>))))"
proof -
  have h: "(5/10::real) \<le> 1" by simp
  show ?thesis
    using constitutional_analysis_kept_at_high_confidence[OF h, of "''employment_contract''"
      "Some (no_indicators\<lparr>privacy_terms := [''personal data''],
                                government_terms := [''ministry'']\<rparr>)"] h
    by simp
qed


section \<open>Properties of the classifier\<close>

subsection \<open>The score map and the winning entry\<close>

lemma fold_dict_set_distinct:
  assumes "distinct (map fst xs)" and "fst ` set xs \<inter> fst ` set d = {}"
  shows "fold (\<lambda>entry d. dict_set (fst entry) (g (snd entry)) d) xs d
         = d @ map (\<lambda>entry. (fst entry, g (snd entry))) xs"
  using assms
proof (induction xs arbitrary: d)
  case Nil
  then show ?case by simp
next
  case (Cons x xs)
  have fresh: "fst x \<notin> fst ` set d" using Cons.prems(2) by auto
  have d: "distinct (map fst xs)" using Cons.prems(1) by simp
  have i: "fst ` set xs \<inter> fst ` set (d @ [(fst x, g (snd x))]) = {}"
    using Cons.prems by auto
  show ?case using Cons.IH[OF d i] fresh by (simp add: dict_set_fresh)
qed

lemma document_patterns_distinct: "distinct (map fst document_patterns)"
  by (simp add: document_patterns_def)

lemma classification_scores_map:
  "classification_scores text =
     map (\<lambda>entry. (fst entry, type_score text (snd entry))) document_patterns"
  using fold_dict_set_distinct[OF document_patterns_distinct, of "[]" "type_score text"]
  by (simp add: classification_scores_def)

lemma dict_get_member: "distinct (map fst xs) \<Longrightarrow> (k, v) \<in> set xs \<Longrightarrow> dict_get xs k = Some v"
  by (induction xs) (auto simp: rev_image_eqI)

lemma dict_get_Some_member: "dict_get xs k = Some v \<Longrightarrow> (k, v) \<in> set xs"
  by (induction xs) (auto split: if_splits)

lemma dict_get_map_value:
  "dict_get (map (\<lambda>entry. (fst entry, g (snd entry))) xs) k = map_option g (dict_get xs k)"
  by (induction xs) auto

lemma scores_lookup:
  "dict_get (classification_scores text) ty = map_option (type_score text) (dict_get document_patterns ty)"
  by (simp add: classification_scores_map dict_get_map_value)

lemma scores_distinct: "distinct (map fst (classification_scores text))"
  using document_patterns_distinct by (simp add: classification_scores_map comp_def)

lemma max_from_member: "max_from b xs \<in> set (b # xs)"
  by (induction xs arbitrary: b) auto

lemma max_from_ge_start: "snd b \<le> snd (max_from b xs)"
proof (induction xs arbitrary: b)
  case Nil
  then show ?case by simp
next
  case (Cons x xs)
  have "snd b \<le> snd (if snd x > snd b then x else b)" by simp
  also have "\<dots> \<le> snd (max_from (if snd x > snd b then x else b) xs)" by (rule Cons.IH)
  finally show ?case by simp
qed

lemma max_from_ge_all: "x \<in> set xs \<Longrightarrow> snd x \<le> snd (max_from b xs)"
proof (induction xs arbitrary: b)
  case Nil
  then show ?case by simp
next
  case (Cons y ys)
  show ?case
  proof (cases "x = y")
    case True
    have "snd y \<le> snd (if snd y > snd b then y else b)" by simp
    also have "\<dots> \<le> snd (max_from (if snd y > snd b then y else b) ys)"
      by (rule max_from_ge_start)
    finally show ?thesis using True by simp
  next
    case False
    then have "x \<in> set ys" using Cons.prems by simp
    then show ?thesis using Cons.IH by simp
  qed
qed

lemma scores_nonempty: "classification_scores text \<noteq> []"
  by (simp add: classification_scores_map document_patterns_def)

lemma winner_member: "winner text \<in> set (classification_scores text)"
  using scores_nonempty[of "text"] max_from_member
  by (auto simp: winner_def split: list.splits)

lemma winner_max:
  assumes "kv \<in> set (classification_scores text)"
  shows "snd kv \<le> snd (winner text)"
proof (cases "classification_scores text")
  case Nil
  then show ?thesis using assms by simp
next
  case (Cons b rest)
  then have "kv = b \<or> kv \<in> set rest" using assms by simp
  then show ?thesis
    using max_from_ge_start[of b rest] max_from_ge_all[of kv rest b] Cons
    by (auto simp: winner_def)
qed

lemma winner_lookup:
  "dict_get (classification_scores text) (fst (winner text)) = Some (snd (winner text))"
  using dict_get_member[OF scores_distinct, of "fst (winner text)" "snd (winner text)" "text"]
    winner_member[of "text"] by simp

lemma classify_guard:
  "length (py_strip text) < 10 \<Longrightarrow> classify_with_confidence text = (''unknown'', 0, [])"
  by (simp add: classify_with_confidence_def)

lemma strip_empty: "py_strip [] = []"
  by (simp add: py_strip_def)

lemma classify_past_guard:
  assumes "10 \<le> length (py_strip text)"
  shows "classify_with_confidence text =
     (if snd (winner text) < threshold_of (fst (winner text))
      then (if snd (winner text) > 2/10 then ''general_legal_document'' else ''unknown'')
      else fst (winner text),
      snd (winner text), classification_scores text)"
proof -
  have ne: "text \<noteq> []" using assms strip_empty by auto
  obtain kv rest where s: "classification_scores text = kv # rest"
    using scores_nonempty[of "text"] by (cases "classification_scores text") auto
  show ?thesis using assms ne s
    by (simp add: classify_with_confidence_def winner_def Let_def)
qed

subsection \<open>Bounds on the scores\<close>

lemma ratio_bounds:
  "0 \<le> (if xs = [] then 0 else real (length (filter P xs)) / real (length xs))
   \<and> (if xs = [] then 0 else real (length (filter P xs)) / real (length xs)) \<le> 1"
proof (cases "xs = []")
  case True
  then show ?thesis by simp
next
  case False
  have "length (filter P xs) \<le> length xs" by (rule length_filter_le)
  then have "real (length (filter P xs)) \<le> real (length xs)" by simp
  moreover have "0 < real (length xs)" using False by simp
  ultimately show ?thesis using False by (simp add: divide_le_eq)
qed

lemma keyword_score_bounds:
  "0 \<le> calculate_keyword_score t ks \<and> calculate_keyword_score t ks \<le> 1"
  unfolding calculate_keyword_score_def by (rule ratio_bounds)

lemma pattern_score_bounds:
  "0 \<le> calculate_pattern_score t ps \<and> calculate_pattern_score t ps \<le> 1"
  unfolding calculate_pattern_score_def by (rule ratio_bounds)

lemma structure_score_bounds:
  "0 \<le> calculate_structure_score t es \<and> calculate_structure_score t es \<le> 1"
  unfolding calculate_structure_score_def by (rule ratio_bounds)

lemma bonus_fold_nonneg:
  "0 \<le> b \<Longrightarrow>
   0 \<le> fold (\<lambda>entry bonus. if list_ex (\<lambda>p. re_search p t) (snd entry)
                              then bonus + 1/10 else bonus) xs (b::real)"
  by (induction xs arbitrary: b) auto

lemma bonus_bounds:
  "0 \<le> calculate_indian_legal_bonus t \<and> calculate_indian_legal_bonus t \<le> 5/10"
  using bonus_fold_nonneg[of 0 t indian_legal_indicator_patterns]
  by (simp add: calculate_indian_legal_bonus_def)

lemmas criteria_defs = government_notification_criteria_def office_memorandum_criteria_def
  recruitment_rules_criteria_def constitutional_document_criteria_def
  constitutional_amendment_criteria_def supreme_court_judgment_criteria_def
  high_court_judgment_criteria_def privacy_policy_criteria_def
  dpdpa_compliance_document_criteria_def service_agreement_criteria_def
  employment_contract_criteria_def general_legal_document_criteria_def

lemma registered_weights:
  assumes "entry \<in> set document_patterns"
  shows "0 \<le> weight_keyword (snd entry) \<and> 0 \<le> weight_pattern (snd entry)
       \<and> 0 \<le> weight_structure (snd entry)
       \<and> weight_keyword (snd entry) + weight_pattern (snd entry) + weight_structure (snd entry) = 1"
  using assms unfolding document_patterns_def
  by (auto simp: criteria_defs)

lemma weighted_final_score_bounds:
  assumes "entry \<in> set document_patterns"
  shows "0 \<le> weighted_final_score t (snd entry) \<and> weighted_final_score t (snd entry) \<le> 21/20"
proof -
  let ?cr = "snd entry"
  let ?k = "calculate_keyword_score (py_lower t) (keyword_terms ?cr)"
  let ?p = "calculate_pattern_score t (patterns ?cr)"
  let ?s = "calculate_structure_score (py_lower t) (structure_elements ?cr)"
  let ?b = "calculate_indian_legal_bonus t"
  note w = registered_weights[OF assms]
  have k: "0 \<le> ?k * weight_keyword ?cr \<and> ?k * weight_keyword ?cr \<le> weight_keyword ?cr"
    using keyword_score_bounds[of "py_lower t" "keyword_terms ?cr"] w
    by (simp add: mult_left_le_one_le)
  have p: "0 \<le> ?p * weight_pattern ?cr \<and> ?p * weight_pattern ?cr \<le> weight_pattern ?cr"
    using pattern_score_bounds[of t "patterns ?cr"] w
    by (simp add: mult_left_le_one_le)
  have s: "0 \<le> ?s * weight_structure ?cr \<and> ?s * weight_structure ?cr \<le> weight_structure ?cr"
    using structure_score_bounds[of "py_lower t" "structure_elements ?cr"] w
    by (simp add: mult_left_le_one_le)
  have b: "0 \<le> ?b * (1/10) \<and> ?b * (1/10) \<le> 1/20"
    using bonus_bounds[of t] by simp
  show ?thesis unfolding weighted_final_score_def using k p s b w by linarith
qed

lemma length_factor_bounds: "0 \<le> length_factor t \<and> length_factor t \<le> 1"
  by (simp add: length_factor_def)

lemma type_score_nonneg:
  assumes "entry \<in> set document_patterns"
  shows "0 \<le> type_score t (snd entry)"
  using weighted_final_score_bounds[OF assms, of t] length_factor_bounds[of t]
  by (simp add: type_score_def)

lemma type_score_five_words:
  assumes "entry \<in> set document_patterns" and "length (py_split t) = 5"
  shows "type_score t (snd entry) \<le> 21/400"
proof -
  have lf: "length_factor t = 5/100" using assms(2) by (simp add: length_factor_def)
  have "weighted_final_score t (snd entry) * (5/100) \<le> (21/20) * (5/100)"
    using weighted_final_score_bounds[OF assms(1), of t] by simp
  then show ?thesis by (simp add: type_score_def lf)
qed

lemma winner_entry:
  "\<exists>entry \<in> set document_patterns.
     fst (winner t) = fst entry \<and> snd (winner t) = type_score t (snd entry)"
  using winner_member[of t] by (force simp: classification_scores_map)

lemma threshold_at_least: "4/10 \<le> threshold_of ty"
  by (simp add: threshold_of_def confidence_thresholds_def default_confidence_threshold_def)

lemma threshold_default:
  "dict_get confidence_thresholds ty = None \<Longrightarrow> threshold_of ty = 4/10"
  by (simp add: threshold_of_def default_confidence_threshold_def)

subsection \<open>Evaluation on the example texts\<close>

text \<open>
  The character tables on the letters, digits and punctuation of the example texts.
\<close>

lemma lower_char_lits:
  "lower_char (CHR ''a'') = CHR ''a''" "lower_char (CHR ''b'') = CHR ''b''"
  "lower_char (CHR ''c'') = CHR ''c''" "lower_char (CHR ''d'') = CHR ''d''"
  "lower_char (CHR ''e'') = CHR ''e''" "lower_char (CHR ''f'') = CHR ''f''"
  "lower_char (CHR ''g'') = CHR ''g''" "lower_char (CHR ''h'') = CHR ''h''"
  "lower_char (CHR ''i'') = CHR ''i''" "lower_char (CHR ''j'') = CHR ''j''"
  "lower_char (CHR ''k'') = CHR ''k''" "lower_char (CHR ''l'') = CHR ''l''"
  "lower_char (CHR ''m'') = CHR ''m''" "lower_char (CHR ''n'') = CHR ''n''"
  "lower_char (CHR ''o'') = CHR ''o''" "lower_char (CHR ''p'') = CHR ''p''"
  "lower_char (CHR ''q'') = CHR ''q''" "lower_char (CHR ''r'') = CHR ''r''"
  "lower_char (CHR ''s'') = CHR ''s''" "lower_char (CHR ''t'') = CHR ''t''"
  "lower_char (CHR ''u'') = CHR ''u''" "lower_char (CHR ''v'') = CHR ''v''"
  "lower_char (CHR ''w'') = CHR ''w''" "lower_char (CHR ''x'') = CHR ''x''"
  "lower_char (CHR ''y'') = CHR ''y''" "lower_char (CHR ''z'') = CHR ''z''"
  "lower_char (CHR ''A'') = CHR ''a''" "lower_char (CHR ''B'') = CHR ''b''"
  "lower_char (CHR ''C'') = CHR ''c''" "lower_char (CHR ''D'') = CHR ''d''"
  "lower_char (CHR ''E'') = CHR ''e''" "lower_char (CHR ''F'') = CHR ''f''"
  "lower_char (CHR ''G'') = CHR ''g''" "lower_char (CHR ''H'') = CHR ''h''"
  "lower_char (CHR ''I'') = CHR ''i''" "lower_char (CHR ''J'') = CHR ''j''"
  "lower_char (CHR ''K'') = CHR ''k''" "lower_char (CHR ''L'') = CHR ''l''"
  "lower_char (CHR ''M'') = CHR ''m''" "lower_char (CHR ''N'') = CHR ''n''"
  "lower_char (CHR ''O'') = CHR ''o''" "lower_char (CHR ''P'') = CHR ''p''"
  "lower_char (CHR ''Q'') = CHR ''q''" "lower_char (CHR ''R'') = CHR ''r''"
  "lower_char (CHR ''S'') = CHR ''s''" "lower_char (CHR ''T'') = CHR ''t''"
  "lower_char (CHR ''U'') = CHR ''u''" "lower_char (CHR ''V'') = CHR ''v''"
  "lower_char (CHR ''W'') = CHR ''w''" "lower_char (CHR ''X'') = CHR ''x''"
  "lower_char (CHR ''Y'') = CHR ''y''" "lower_char (CHR ''Z'') = CHR ''z''"
  "lower_char (CHR ''0'') = CHR ''0''" "lower_char (CHR ''1'') = CHR ''1''"
  "lower_char (CHR ''2'') = CHR ''2''" "lower_char (CHR ''3'') = CHR ''3''"
  "lower_char (CHR ''4'') = CHR ''4''" "lower_char (CHR ''5'') = CHR ''5''"
  "lower_char (CHR ''6'') = CHR ''6''" "lower_char (CHR ''7'') = CHR ''7''"
  "lower_char (CHR ''8'') = CHR ''8''" "lower_char (CHR ''9'') = CHR ''9''"
  "lower_char (CHR '' '') = CHR '' ''" "lower_char (CHR ''.'') = CHR ''.''"
  "lower_char (CHR ''-'') = CHR ''-''" "lower_char (CHR ''('') = CHR ''(''"
  "lower_char (CHR '')'') = CHR '')''" "lower_char (CHR '','') = CHR '',''"
  "lower_char (CHR ''_'') = CHR ''_''"
  by (simp_all add: lower_char_def is_upper_def)

lemma is_space_lits:
  "is_space (CHR ''a'') = False" "is_space (CHR ''b'') = False"
  "is_space (CHR ''c'') = False" "is_space (CHR ''d'') = False"
  "is_space (CHR ''e'') = False" "is_space (CHR ''f'') = False"
  "is_space (CHR ''g'') = False" "is_space (CHR ''h'') = False"
  "is_space (CHR ''i'') = False" "is_space (CHR ''j'') = False"
  "is_space (CHR ''k'') = False" "is_space (CHR ''l'') = False"
  "is_space (CHR ''m'') = False" "is_space (CHR ''n'') = False"
  "is_space (CHR ''o'') = False" "is_space (CHR ''p'') = False"
  "is_space (CHR ''q'') = False" "is_space (CHR ''r'') = False"
  "is_space (CHR ''s'') = False" "is_space (CHR ''t'') = False"
  "is_space (CHR ''u'') = False" "is_space (CHR ''v'') = False"
  "is_space (CHR ''w'') = False" "is_space (CHR ''x'') = False"
  "is_space (CHR ''y'') = False" "is_space (CHR ''z'') = False"
  "is_space (CHR ''A'') = False" "is_space (CHR ''B'') = False"
  "is_space (CHR ''C'') = False" "is_space (CHR ''D'') = False"
  "is_space (CHR ''E'') = False" "is_space (CHR ''F'') = False"
  "is_space (CHR ''G'') = False" "is_space (CHR ''H'') = False"
  "is_space (CHR ''I'') = False" "is_space (CHR ''J'') = False"
  "is_space (CHR ''K'') = False" "is_space (CHR ''L'') = False"
  "is_space (CHR ''M'') = False" "is_space (CHR ''N'') = False"
  "is_space (CHR ''O'') = False" "is_space (CHR ''P'') = False"
  "is_space (CHR ''Q'') = False" "is_space (CHR ''R'') = False"
  "is_space (CHR ''S'') = False" "is_space (CHR ''T'') = False"
  "is_space (CHR ''U'') = False" "is_space (CHR ''V'') = False"
  "is_space (CHR ''W'') = False" "is_space (CHR ''X'') = False"
  "is_space (CHR ''Y'') = False" "is_space (CHR ''Z'') = False"
  "is_space (CHR ''0'') = False" "is_space (CHR ''1'') = False"
  "is_space (CHR ''2'') = False" "is_space (CHR ''3'') = False"
  "is_space (CHR ''4'') = False" "is_space (CHR ''5'') = False"
  "is_space (CHR ''6'') = False" "is_space (CHR ''7'') = False"
  "is_space (CHR ''8'') = False" "is_space (CHR ''9'') = False"
  "is_space (CHR '' '') = True" "is_space (CHR ''.'') = False"
  "is_space (CHR ''-'') = False" "is_space (CHR ''('') = False"
  "is_space (CHR '')'') = False" "is_space (CHR '','') = False"
  "is_space (CHR ''_'') = False"
  by (simp_all add: is_space_def)

lemmas regex_defs = lit_def ws_def digits_def digit_def one_of_def upper_letters_def

lemmas eval_simps = lower_char_lits is_space_lits regex_defs py_lower_def py_split_def
  py_strip_def is_digit_def is_word_def

lemmas score_defs = type_score_def weighted_final_score_def length_factor_def
  calculate_keyword_score_def calculate_pattern_score_def calculate_structure_score_def

lemma five_word_text_shape:
  "length (py_split five_word_text) = 5" "length (py_strip five_word_text) = 41"
  by (simp_all add: five_word_text_def eval_simps)

lemma five_word_text_bonus: "calculate_indian_legal_bonus ''government of india notification ministry'' = 1/10"
  by (simp add: calculate_indian_legal_bonus_def indian_legal_indicator_patterns_def eval_simps)

lemma all_matching_text_shape:
  "length (py_split all_matching_text) = 8" "length (py_strip all_matching_text) = 62"
  by (simp_all add: all_matching_text_def eval_simps)

lemma all_matching_text_bonus: "calculate_indian_legal_bonus ''legal law agreement contract terms parties obligations whereas'' = 1/10"
  by (simp add: calculate_indian_legal_bonus_def indian_legal_indicator_patterns_def eval_simps)

lemma all_matching_text_weighted:
  "weighted_final_score all_matching_text general_legal_document_criteria = 101/100"
  by (simp add: all_matching_text_def general_legal_document_criteria_def score_defs
      all_matching_text_bonus eval_simps)

lemma padded_text_shape:
  "length (py_split padded_text) = 21" "length (py_strip padded_text) = 88"
  by (simp_all add: padded_text_def eval_simps)

lemma padded_text_bonus: "calculate_indian_legal_bonus ''legal law agreement contract terms parties obligations whereas a a a a a a a a a a a a a'' = 1/10"
  by (simp add: calculate_indian_legal_bonus_def indian_legal_indicator_patterns_def eval_simps)

lemma padded_text_weighted:
  "weighted_final_score padded_text general_legal_document_criteria = 101/100"
  by (simp add: padded_text_def general_legal_document_criteria_def score_defs
      padded_text_bonus eval_simps)

lemma five_word_text_scores:
  "type_score five_word_text government_notification_criteria = 443/28000"
  "type_score five_word_text office_memorandum_criteria = 1/2000"
  "type_score five_word_text recruitment_rules_criteria = 1/2000"
  "type_score five_word_text constitutional_document_criteria = 1/2000"
  "type_score five_word_text constitutional_amendment_criteria = 1/2000"
  "type_score five_word_text supreme_court_judgment_criteria = 1/2000"
  "type_score five_word_text high_court_judgment_criteria = 1/2000"
  "type_score five_word_text privacy_policy_criteria = 1/2000"
  "type_score five_word_text dpdpa_compliance_document_criteria = 1/2000"
  "type_score five_word_text service_agreement_criteria = 1/2000"
  "type_score five_word_text employment_contract_criteria = 1/2000"
  "type_score five_word_text general_legal_document_criteria = 1/2000"
  by (simp_all add: five_word_text_def criteria_defs score_defs five_word_text_bonus eval_simps)

lemma type_score_le:
  assumes "entry \<in> set document_patterns"
  shows "type_score t (snd entry) \<le> 21/20 * length_factor t"
proof -
  have "weighted_final_score t (snd entry) * length_factor t \<le> 21/20 * length_factor t"
  proof (rule mult_right_mono)
    show "weighted_final_score t (snd entry) \<le> 21/20"
      using weighted_final_score_bounds[OF assms, of t] by simp
    show "0 \<le> length_factor t" using length_factor_bounds[of t] by simp
  qed
  then show ?thesis by (simp add: type_score_def)
qed

lemma winner_le: "snd (winner t) \<le> 21/20 * length_factor t"
  using winner_entry[of t] type_score_le[of _ t] by auto

lemma winner_nonneg: "0 \<le> snd (winner t)"
  using winner_entry[of t] type_score_nonneg[of _ t] by auto

lemma five_word_text_winner: "winner five_word_text = (''government_notification'', 443/28000)"
  by (simp add: winner_def classification_scores_map document_patterns_def five_word_text_scores)

lemma five_word_text_weighted:
  "weighted_final_score five_word_text government_notification_criteria = 443/1400"
  by (simp add: five_word_text_def government_notification_criteria_def score_defs
      five_word_text_bonus eval_simps)

lemma padded_text_winner_bounds:
  "2/10 < snd (winner padded_text)" "snd (winner padded_text) < 4/10"
proof -
  have lf: "length_factor padded_text = 21/100"
    by (simp add: length_factor_def padded_text_shape)
  have "type_score padded_text general_legal_document_criteria = 2121/10000"
    by (simp add: type_score_def padded_text_weighted lf)
  moreover have "(''general_legal_document'', type_score padded_text general_legal_document_criteria)
      \<in> set (classification_scores padded_text)"
    by (simp add: classification_scores_map document_patterns_def)
  ultimately show "2/10 < snd (winner padded_text)"
    using winner_max[of "(''general_legal_document'', type_score padded_text general_legal_document_criteria)" padded_text]
    by simp
  show "snd (winner padded_text) < 4/10"
    using winner_le[of padded_text] by (simp add: lf)
qed

text \<open>
  C5. An input whose stripped length is below 10, the empty string and whitespace-only
  strings among them, gives exactly \<^verbatim>\<open>("unknown", 0.0, {})\<close>; the model is a total
  function, so nothing is raised.
\<close>

theorem classify_short_input:
  "length (py_strip text) < 10 \<Longrightarrow> classify_with_confidence text = (''unknown'', 0, [])"
  by (rule classify_guard)

theorem classify_short_input_witness:
  "classify_with_confidence '''' = (''unknown'', 0, [])
   \<and> classify_with_confidence ''   '' = (''unknown'', 0, [])
   \<and> classify_with_confidence ''  notice  '' = (''unknown'', 0, [])"
proof -
  have a: "length (py_strip '''') < 10" by (simp add: py_strip_def)
  have b: "length (py_strip ''   '') < 10" by (simp add: py_strip_def is_space_lits)
  have c: "length (py_strip ''  notice  '') < 10" by (simp add: py_strip_def is_space_lits)
  show ?thesis
    using classify_short_input[OF a] classify_short_input[OF b] classify_short_input[OF c]
    by simp
qed

text \<open>
  C2. Past the length guard, when the winning score (the maximum of the per-type scores)
  is below the threshold of the winning type (0.4 for a type without a threshold of its
  own), the result is \<^verbatim>\<open>general_legal_document\<close> for a winning score above 0.2 and
  \<^verbatim>\<open>unknown\<close> otherwise, and the confidence returned is the winning type's score.
\<close>

theorem threshold_fallback_keeps_winning_score:
  assumes "10 \<le> length (py_strip text)"
    and "snd (winner text) < threshold_of (fst (winner text))"
  shows "classify_with_confidence text =
           (if snd (winner text) > 2/10 then ''general_legal_document'' else ''unknown'',
            snd (winner text), classification_scores text)
     \<and> dict_get (classification_scores text) (fst (winner text)) = Some (snd (winner text))
     \<and> (\<forall>kv \<in> set (classification_scores text). snd kv \<le> snd (winner text))
     \<and> threshold_of (fst (winner text)) =
         (case dict_get confidence_thresholds (fst (winner text)) of
            Some t \<Rightarrow> t | None \<Rightarrow> 4/10)"
proof (intro conjI ballI)
  show "classify_with_confidence text =
           (if snd (winner text) > 2/10 then ''general_legal_document'' else ''unknown'',
            snd (winner text), classification_scores text)"
    using assms by (simp add: classify_past_guard)
  show "dict_get (classification_scores text) (fst (winner text)) = Some (snd (winner text))"
    by (rule winner_lookup)
  show "\<And>kv. kv \<in> set (classification_scores text) \<Longrightarrow> snd kv \<le> snd (winner text)"
    by (rule winner_max)
  show "threshold_of (fst (winner text)) =
         (case dict_get confidence_thresholds (fst (winner text)) of
            Some t \<Rightarrow> t | None \<Rightarrow> 4/10)"
    by (simp add: threshold_of_def default_confidence_threshold_def split: option.splits)
qed

theorem threshold_fallback_keeps_winning_score_witness:
  "winner five_word_text = (''government_notification'', 443/28000)
   \<and> classify_with_confidence five_word_text
       = (''unknown'', 443/28000, classification_scores five_word_text)
   \<and> fst (classify_with_confidence padded_text) = ''general_legal_document''
   \<and> fst (snd (classify_with_confidence padded_text)) = snd (winner padded_text)"
proof -
  have g1: "10 \<le> length (py_strip five_word_text)" by (simp add: five_word_text_shape)
  have t1: "snd (winner five_word_text) < threshold_of (fst (winner five_word_text))"
    by (simp add: five_word_text_winner threshold_of_def confidence_thresholds_def)
  have g2: "10 \<le> length (py_strip padded_text)" by (simp add: padded_text_shape)
  have t2: "snd (winner padded_text) < threshold_of (fst (winner padded_text))"
    using padded_text_winner_bounds(2) threshold_at_least[of "fst (winner padded_text)"]
    by simp
  show ?thesis
    using threshold_fallback_keeps_winning_score[OF g1 t1]
      threshold_fallback_keeps_winning_score[OF g2 t2] padded_text_winner_bounds(1)
    by (simp add: five_word_text_winner)
qed

text \<open>
  C3 (as amended). Past the length guard, the score recorded for a registered type is the
  weighted sum multiplied by the length factor and then capped at 1; no lower clamp is
  applied (the weighted sum is never negative). When the weighted sum is at most 1 this
  is the value of the specification's order, clamp first and length factor second.
\<close>

theorem recorded_score_capped_after_length_factor:
  assumes "10 \<le> length (py_strip text)"
    and "dict_get document_patterns ty = Some cr"
  shows "dict_get (snd (snd (classify_with_confidence text))) ty =
           Some (min 1 (weighted_final_score text cr
                          * min 1 (real (length (py_split text)) / 100)))
     \<and> 0 \<le> weighted_final_score text cr
     \<and> (weighted_final_score text cr \<le> 1 \<longrightarrow>
          dict_get (snd (snd (classify_with_confidence text))) ty
            = Some (spec_type_score text cr))"
proof -
  have m: "(ty, cr) \<in> set document_patterns" using assms(2) by (rule dict_get_Some_member)
  have l: "dict_get (snd (snd (classify_with_confidence text))) ty = Some (type_score text cr)"
    using assms by (simp add: classify_past_guard scores_lookup)
  have n: "0 \<le> weighted_final_score text cr"
    using weighted_final_score_bounds[OF m, of "text"] by simp
  have s: "weighted_final_score text cr \<le> 1 \<Longrightarrow> type_score text cr = spec_type_score text cr"
  proof -
    assume le: "weighted_final_score text cr \<le> 1"
    have "weighted_final_score text cr * length_factor text \<le> 1 * 1"
      using le n length_factor_bounds[of "text"] by (intro mult_mono) simp_all
    then show ?thesis using le n by (simp add: type_score_def spec_type_score_def)
  qed
  show ?thesis using l n s by (simp add: type_score_def length_factor_def)
qed

theorem recorded_score_capped_after_length_factor_witness:
  "dict_get (snd (snd (classify_with_confidence five_word_text))) ''government_notification''
     = Some (443/28000)
   \<and> spec_type_score five_word_text government_notification_criteria = 443/28000"
proof -
  have g: "10 \<le> length (py_strip five_word_text)" by (simp add: five_word_text_shape)
  have d: "dict_get document_patterns ''government_notification''
             = Some government_notification_criteria"
    by (simp add: document_patterns_def)
  have w: "weighted_final_score five_word_text government_notification_criteria \<le> 1"
    by (simp add: five_word_text_weighted)
  have sp: "spec_type_score five_word_text government_notification_criteria = 443/28000"
    by (simp add: spec_type_score_def five_word_text_weighted length_factor_def
        five_word_text_shape)
  have r: "dict_get (snd (snd (classify_with_confidence five_word_text)))
             ''government_notification''
           = Some (spec_type_score five_word_text government_notification_criteria)"
    using recorded_score_capped_after_length_factor[OF g d] w by blast
  have r': "dict_get (snd (snd (classify_with_confidence five_word_text)))
             ''government_notification'' = Some (443/28000)"
    using r by (simp only: sp)
  show ?thesis by (rule conjI[OF r' sp])
qed

text \<open>
  C3 as stated fails on a text of 8 words in which every keyword, pattern and structure
  term of \<^verbatim>\<open>general_legal_document\<close> occurs: the weighted sum is 1.01, the recorded score
  is 1.01 * 0.08 = 0.0808, and clamping first would give 0.08.
\<close>

theorem recorded_score_differs_from_clamp_first:
  "10 \<le> length (py_strip all_matching_text)
   \<and> dict_get document_patterns ''general_legal_document'' = Some general_legal_document_criteria
   \<and> dict_get (snd (snd (classify_with_confidence all_matching_text))) ''general_legal_document''
       = Some (101/1250)
   \<and> spec_type_score all_matching_text general_legal_document_criteria = 2/25
   \<and> dict_get (snd (snd (classify_with_confidence all_matching_text))) ''general_legal_document''
       \<noteq> Some (spec_type_score all_matching_text general_legal_document_criteria)"
proof -
  have g: "10 \<le> length (py_strip all_matching_text)" by (simp add: all_matching_text_shape)
  have d: "dict_get document_patterns ''general_legal_document''
             = Some general_legal_document_criteria"
    by (simp add: document_patterns_def)
  have lf: "length_factor all_matching_text = 8/100"
    by (simp add: length_factor_def all_matching_text_shape)
  have r: "dict_get (snd (snd (classify_with_confidence all_matching_text)))
             ''general_legal_document'' = Some (101/1250)"
    using g by (simp add: classify_past_guard scores_lookup d type_score_def
        all_matching_text_weighted lf)
  have sp: "spec_type_score all_matching_text general_legal_document_criteria = 2/25"
    by (simp add: spec_type_score_def all_matching_text_weighted lf)
  show ?thesis using g d r sp by simp
qed

lemma scores_keys: "map fst (classification_scores t) = map fst document_patterns"
  by (simp add: classification_scores_map comp_def)

lemma scores_length: "length (classification_scores t) = 12"
  by (simp add: classification_scores_map document_patterns_def)

lemma scores_nonneg: "kv \<in> set (classification_scores t) \<Longrightarrow> 0 \<le> snd kv"
  using type_score_nonneg[of _ t] by (auto simp: classification_scores_map)

lemma winner_zero_iff:
  "snd (winner t) = 0 \<longleftrightarrow> (\<forall>kv \<in> set (classification_scores t). snd kv = 0)"
proof
  assume z: "snd (winner t) = 0"
  show "\<forall>kv \<in> set (classification_scores t). snd kv = 0"
  proof
    fix kv assume m: "kv \<in> set (classification_scores t)"
    have "snd kv \<le> 0" using winner_max[OF m] z by simp
    then show "snd kv = 0" using scores_nonneg[OF m] by simp
  qed
next
  assume "\<forall>kv \<in> set (classification_scores t). snd kv = 0"
  then show "snd (winner t) = 0" using winner_member[of t] by blast
qed

lemma unmatched_text_shape:
  "length (py_split unmatched_text) = 5" "length (py_strip unmatched_text) = 29"
  by (simp_all add: unmatched_text_def eval_simps)

lemma unmatched_text_bonus: "calculate_indian_legal_bonus ''aaaaa bbbbb ccccc ddddd eeeee'' = 0"
  by (simp add: calculate_indian_legal_bonus_def indian_legal_indicator_patterns_def eval_simps)

lemma unmatched_text_scores:
  "type_score unmatched_text government_notification_criteria = 0"
  "type_score unmatched_text office_memorandum_criteria = 0"
  "type_score unmatched_text recruitment_rules_criteria = 0"
  "type_score unmatched_text constitutional_document_criteria = 0"
  "type_score unmatched_text constitutional_amendment_criteria = 0"
  "type_score unmatched_text supreme_court_judgment_criteria = 0"
  "type_score unmatched_text high_court_judgment_criteria = 0"
  "type_score unmatched_text privacy_policy_criteria = 0"
  "type_score unmatched_text dpdpa_compliance_document_criteria = 0"
  "type_score unmatched_text service_agreement_criteria = 0"
  "type_score unmatched_text employment_contract_criteria = 0"
  "type_score unmatched_text general_legal_document_criteria = 0"
  by (simp_all add: unmatched_text_def criteria_defs score_defs unmatched_text_bonus eval_simps)

text \<open>
  C4 (as amended). A text of 5 words is classified \<^verbatim>\<open>unknown\<close>, with a confidence between
  0 and 0.0525. When its stripped length is below 10 the result is
  \<^verbatim>\<open>("unknown", 0.0, {})\<close>. Otherwise the text is scored: the score map has an entry for
  each of the twelve registered types, every score is at least 0, and the confidence is
  the largest of them, so it is 0.0 exactly when every per-type score is 0.0. The score
  map is empty exactly when the stripped length is below 10.
\<close>

theorem five_word_input_unknown:
  assumes "length (py_split text) = 5"
  shows "fst (classify_with_confidence text) = ''unknown''
     \<and> 0 \<le> fst (snd (classify_with_confidence text))
     \<and> fst (snd (classify_with_confidence text)) \<le> 21/400
     \<and> (length (py_strip text) < 10 \<longrightarrow>
          classify_with_confidence text = (''unknown'', 0, []))
     \<and> (10 \<le> length (py_strip text) \<longrightarrow>
          snd (classify_with_confidence text) = (snd (winner text), classification_scores text)
          \<and> map fst (classification_scores text) = map fst document_patterns
          \<and> length (classification_scores text) = 12
          \<and> (\<forall>kv \<in> set (classification_scores text).
                0 \<le> snd kv \<and> snd kv \<le> snd (winner text))
          \<and> (snd (winner text) = 0 \<longleftrightarrow>
                (\<forall>kv \<in> set (classification_scores text). snd kv = 0)))
     \<and> (snd (snd (classify_with_confidence text)) = [] \<longleftrightarrow> length (py_strip text) < 10)"
proof (cases "length (py_strip text) < 10")
  case True
  then show ?thesis by (simp add: classify_guard)
next
  case False
  then have g: "10 \<le> length (py_strip text)" by simp
  have lf: "length_factor text = 5/100" using assms by (simp add: length_factor_def)
  have le: "snd (winner text) \<le> 21/400" using winner_le[of "text"] by (simp add: lf)
  have lt: "snd (winner text) < threshold_of (fst (winner text))"
    using le threshold_at_least[of "fst (winner text)"] by simp
  have c: "classify_with_confidence text
             = (''unknown'', snd (winner text), classification_scores text)"
    using g le lt by (simp add: classify_past_guard)
  have b: "\<forall>kv \<in> set (classification_scores text). 0 \<le> snd kv \<and> snd kv \<le> snd (winner text)"
    using scores_nonneg winner_max by blast
  have z: "snd (winner text) = 0 \<longleftrightarrow> (\<forall>kv \<in> set (classification_scores text). snd kv = 0)"
    by (rule winner_zero_iff)
  have ne: "classification_scores text \<noteq> []" by (rule scores_nonempty)
  show ?thesis
    using False g c le winner_nonneg[of "text"] b z ne
    by (simp add: scores_keys scores_length)
qed

theorem five_word_input_unknown_witness:
  "length (py_split five_word_text) = 5
   \<and> fst (classify_with_confidence five_word_text) = ''unknown''
   \<and> fst (snd (classify_with_confidence five_word_text)) = 443/28000
   \<and> length (py_split unmatched_text) = 5
   \<and> length (py_strip unmatched_text) = 29
   \<and> classify_with_confidence unmatched_text
       = (''unknown'', 0, classification_scores unmatched_text)
   \<and> length (classification_scores unmatched_text) = 12"
proof -
  have w: "length (py_split five_word_text) = 5" by (simp add: five_word_text_shape)
  have g: "10 \<le> length (py_strip five_word_text)" by (simp add: five_word_text_shape)
  have w': "length (py_split unmatched_text) = 5" by (simp add: unmatched_text_shape)
  have g': "10 \<le> length (py_strip unmatched_text)" by (simp add: unmatched_text_shape)
  have all0: "\<forall>kv \<in> set (classification_scores unmatched_text). snd kv = 0"
    by (simp add: classification_scores_map document_patterns_def unmatched_text_scores)
  have f1: "fst (classify_with_confidence five_word_text) = ''unknown''
      \<and> fst (snd (classify_with_confidence five_word_text)) = 443/28000"
    using five_word_input_unknown[OF w] g by (simp add: five_word_text_winner)
  have f2: "fst (classify_with_confidence unmatched_text) = ''unknown''
      \<and> snd (classify_with_confidence unmatched_text)
          = (0, classification_scores unmatched_text)
      \<and> length (classification_scores unmatched_text) = 12"
    using five_word_input_unknown[OF w'] g' all0 by simp
  then have f3: "classify_with_confidence unmatched_text
       = (''unknown'', 0, classification_scores unmatched_text)"
    by (metis prod.collapse)
  show ?thesis using w f1 w' f2 f3 by (simp add: unmatched_text_shape)
qed

text \<open>
  C4 as stated fails: the guard counts characters, not words. The 5-word text
  \<^verbatim>\<open>government of india notification ministry\<close> has 41 characters, is scored, and
  comes back with confidence 443/28000 and a score for each of the twelve types.
\<close>

theorem five_word_input_positive_confidence:
  "length (py_split five_word_text) = 5
   \<and> fst (snd (classify_with_confidence five_word_text)) \<noteq> 0
   \<and> length (snd (snd (classify_with_confidence five_word_text))) = 12"
proof -
  have g: "10 \<le> length (py_strip five_word_text)" by (simp add: five_word_text_shape)
  show ?thesis
    using g by (simp add: classify_past_guard five_word_text_winner five_word_text_shape
        classification_scores_map document_patterns_def)
qed

end
